theory Spec2Isabelle
  imports Complex_Main "HOL-Library.Sublist"
begin

section \<open>JavaScript values\<close>

text \<open>
  The resolver of \<^verbatim>\<open>packages/api/src/resolvers/discover_feeds/add.ts\<close> works on
  the untyped tree that the XML parser returns and on rows of the store, so the model
  starts with the JavaScript values the file can meet. With \<^verbatim>\<open>parseTagValue: true\<close>
  the text of a tag may arrive as a number or a boolean instead of a string.
\<close>

datatype exn = TypeError | Thrown string

datatype num = Finite rat | PlusInfinity | MinusInfinity | NaN

datatype jsval =
    JUndefined
  | JNull
  | JBool bool
  | JNum num
  | JStr string
  | JObj "(string \<times> jsval) list"
  | JArr "jsval list"

text \<open>\<^verbatim>\<open>!v\<close> is false exactly for the truthy values.\<close>

fun truthy :: "jsval \<Rightarrow> bool" where
  "truthy JUndefined = False"
| "truthy JNull = False"
| "truthy (JBool b) = b"
| "truthy (JNum n) = (n \<noteq> Finite 0 \<and> n \<noteq> NaN)"
| "truthy (JStr s) = (s \<noteq> [])"
| "truthy (JObj kvs) = True"
| "truthy (JArr vs) = True"

fun nullish :: "jsval \<Rightarrow> bool" where
  "nullish JUndefined = True"
| "nullish JNull = True"
| "nullish v = False"

text \<open>\<^verbatim>\<open>a ?? b\<close>, with both sides already evaluated (the right sides used by the
  source are a literal and a parameter, which cannot raise).\<close>

definition nullish_coalesce :: "jsval \<Rightarrow> jsval \<Rightarrow> jsval" where
  "nullish_coalesce a b = (if nullish a then b else a)"

text \<open>
  \<^verbatim>\<open>v.k\<close>: reading a property of \<^verbatim>\<open>undefined\<close> or \<^verbatim>\<open>null\<close> raises a
  TypeError. The names the source reads (rss, rdf:RDF, feed, channel, title, description,
  image, url, subtitle, icon) are properties neither of arrays nor of the wrappers of
  strings, numbers and booleans, so the read gives \<^verbatim>\<open>undefined\<close> on those.
\<close>

fun member :: "jsval \<Rightarrow> string \<Rightarrow> exn + jsval" where
  "member JUndefined k = Inl TypeError"
| "member JNull k = Inl TypeError"
| "member (JObj kvs) k = Inr (case map_of kvs k of None \<Rightarrow> JUndefined | Some v \<Rightarrow> v)"
| "member v k = Inr JUndefined"

text \<open>\<^verbatim>\<open>v?.k\<close>: the optional chain gives \<^verbatim>\<open>undefined\<close> where the plain read raises.\<close>

definition opt_member :: "jsval \<Rightarrow> string \<Rightarrow> jsval" where
  "opt_member v k = (case member v k of Inl e \<Rightarrow> JUndefined | Inr x \<Rightarrow> x)"

definition bindE :: "exn + 'a \<Rightarrow> ('a \<Rightarrow> exn + 'b) \<Rightarrow> exn + 'b" where
  "bindE m f = (case m of Inl e \<Rightarrow> Inl e | Inr a \<Rightarrow> f a)"

text \<open>\<^verbatim>\<open>String.prototype.includes\<close>: the argument occurs as a contiguous run.\<close>

fun str_includes :: "string \<Rightarrow> string \<Rightarrow> bool" where
  "str_includes [] t = (t = [])"
| "str_includes (c # cs) t = (prefix t (c # cs) \<or> str_includes cs t)"

text \<open>
  Line 72 compares the array \<^verbatim>\<open>existingSubscription.rows\<close> itself with the number 1.
  JavaScript turns the array into a primitive by joining the strings of its elements with
  commas; a row object prints as \<^verbatim>\<open>[object Object]\<close>. The joined string is empty for
  the empty array, which converts to 0, and is not numeric otherwise, which converts to
  NaN. A comparison with NaN is false.
\<close>

definition array_to_number :: "'a list \<Rightarrow> num" where
  "array_to_number rows = (if rows = [] then Finite 0 else NaN)"

fun js_gt :: "num \<Rightarrow> rat \<Rightarrow> bool" where
  "js_gt (Finite a) b = (b < a)"
| "js_gt PlusInfinity b = True"
| "js_gt MinusInfinity b = False"
| "js_gt NaN b = False"

section \<open>Feeds, results and the extractors\<close>

text \<open>
  \<^verbatim>\<open>Partial<DiscoverFeed>\<close>: every field may be absent, which is the value
  \<^verbatim>\<open>undefined\<close>.
\<close>

record DiscoverFeed =
  feed_id :: jsval
  feed_title :: jsval
  feed_link :: jsval
  feed_image :: jsval
  feed_type :: jsval
  feed_description :: jsval

datatype AddDiscoverFeedErrorCode = BadRequest | Conflict | Unauthorized

datatype result =
    AddDiscoverFeedSuccess DiscoverFeed
  | AddDiscoverFeedError "AddDiscoverFeedErrorCode list"

text \<open>Lines 28 to 41. The object literal evaluates its fields in the order written.\<close>

definition extractAtomData :: "string \<Rightarrow> jsval \<Rightarrow> exn + DiscoverFeed" where
  "extractAtomData url feed =
     bindE (member feed ''subtitle'') (\<lambda>subtitle.
     bindE (member feed ''title'') (\<lambda>title.
     bindE (member feed ''icon'') (\<lambda>icon.
       Inr \<lparr> feed_id = JUndefined,
             feed_title = nullish_coalesce title (JStr url),
             feed_link = JStr url,
             feed_image = icon,
             feed_type = JStr ''atom'',
             feed_description = nullish_coalesce subtitle (JStr '''') \<rparr>)))"

text \<open>
  Lines 43 to 59. The description is read through \<^verbatim>\<open>channel?.description\<close>, the title
  through \<^verbatim>\<open>channel.title\<close>, which raises when the channel is missing; the image is
  read from \<^verbatim>\<open>parsedXml.image?.url\<close>, beside the channel and not inside it.
\<close>

definition extractRssData :: "string \<Rightarrow> jsval \<Rightarrow> exn + DiscoverFeed" where
  "extractRssData url parsedXml =
     bindE (member parsedXml ''channel'') (\<lambda>channel.
     bindE (member channel ''title'') (\<lambda>title.
     bindE (member parsedXml ''image'') (\<lambda>image.
       Inr \<lparr> feed_id = JUndefined,
             feed_title = nullish_coalesce title (JStr url),
             feed_link = JStr url,
             feed_image = opt_member image ''url'',
             feed_type = JStr ''rss'',
             feed_description =
               nullish_coalesce (opt_member channel ''description'') (JStr '''') \<rparr>)))"

text \<open>Line 114: \<^verbatim>\<open>!parsedFeed?.rss && !parsedFeed['rdf:RDF'] && !parsedFeed['feed']\<close>.\<close>

definition no_feed_root :: "jsval \<Rightarrow> exn + bool" where
  "no_feed_root parsedFeed =
     (if truthy (opt_member parsedFeed ''rss'') then Inr False
      else bindE (member parsedFeed ''rdf:RDF'') (\<lambda>rdf.
        if truthy rdf then Inr False
        else bindE (member parsedFeed ''feed'') (\<lambda>feed. Inr (\<not> truthy feed))))"

text \<open>\<^verbatim>\<open>parsedFeed.rss || parsedFeed['rdf:RDF']\<close>, the argument on line 123.\<close>

definition rss_or_rdf :: "jsval \<Rightarrow> exn + jsval" where
  "rss_or_rdf parsedFeed =
     bindE (member parsedFeed ''rss'') (\<lambda>rss.
       if truthy rss then Inr rss else member parsedFeed ''rdf:RDF'')"

text \<open>Lines 121 to 124, the conditional that picks the extractor.\<close>

definition extractFeed :: "string \<Rightarrow> jsval \<Rightarrow> exn + DiscoverFeed" where
  "extractFeed url parsedFeed =
     bindE (if truthy (opt_member parsedFeed ''rss'')
            then Inr (opt_member parsedFeed ''rss'')
            else member parsedFeed ''rdf:RDF'') (\<lambda>c.
       if truthy c
       then bindE (rss_or_rdf parsedFeed) (extractRssData url)
       else bindE (member parsedFeed ''feed'') (extractAtomData url))"

text \<open>Lines 100 to 104; a missing header makes every optional call \<^verbatim>\<open>undefined\<close>.\<close>

definition isXML :: "string option \<Rightarrow> bool" where
  "isXML contentType =
     (case contentType of
        None \<Rightarrow> False
      | Some ct \<Rightarrow> str_includes ct ''text/rss+xml'' \<or> str_includes ct ''text/atom+xml''
                 \<or> str_includes ct ''application/xml'')"

section \<open>The collaborators\<close>

record response =
  response_data :: string
  content_type :: "string option"

record subscription =
  sub_feed_id :: jsval
  sub_user_id :: string

text \<open>\<^verbatim>\<open>EntityType.RSS_FEED\<close> is the only member of the enumeration the file names.\<close>

datatype EntityType = RSS_FEED

record event =
  event_kind :: EntityType
  event_feed :: DiscoverFeed
  event_libraryItemId :: string
  event_owner :: string

text \<open>
  The world outside the resolver: the two tables, the connections acquired and released,
  the documents handed to the parser, the calls of \<^verbatim>\<open>pubsub.entityCreated\<close> and the
  errors logged.
\<close>

record world =
  discover_feed :: "DiscoverFeed list"
  discover_feed_subscription :: "subscription list"
  acquired :: nat
  released :: nat
  parse_calls :: "string list"
  entityCreated_calls :: "event list"
  error_log :: "exn list"

text \<open>The four SQL statements of the file, with their parameters.\<close>

datatype query =
    SelectFeedIdByLink string
  | SelectSubscription string jsval
  | InsertSubscription jsval string
  | InsertFeed DiscoverFeed

text \<open>
  What the collaborators do during one call, which the resolver does not control: whether
  connecting, a statement, the release or the publication raises (the schema and its
  constraints are not part of the file), what the HTTP request and the parser return, and
  the identifier \<^verbatim>\<open>v4()\<close> draws. A call issues each statement at most once, so one
  answer per statement describes any store. The result of a statement has the shape the
  source declares for it, an object whose \<^verbatim>\<open>rows\<close> is an array.
\<close>

record env =
  connect_error :: "exn option"
  query_error :: "query \<Rightarrow> exn option"
  release_error :: "exn option"
  axios_get :: "string \<Rightarrow> exn + response"
  parser_parse :: "string \<Rightarrow> exn + jsval"
  entityCreated_error :: "exn option"
  v4 :: string

type_synonym 'a io = "world \<Rightarrow> (exn + 'a) \<times> world"

definition returnIO :: "'a \<Rightarrow> 'a io" where
  "returnIO a w = (Inr a, w)"

definition bindIO :: "'a io \<Rightarrow> ('a \<Rightarrow> 'b io) \<Rightarrow> 'b io" where
  "bindIO m f w = (case m w of (Inl e, w') \<Rightarrow> (Inl e, w') | (Inr a, w') \<Rightarrow> f a w')"

definition liftE :: "exn + 'a \<Rightarrow> 'a io" where
  "liftE m w = (m, w)"

definition connect :: "env \<Rightarrow> unit io" where
  "connect e w =
     (case connect_error e of
        Some x \<Rightarrow> (Inl x, w)
      | None \<Rightarrow> (Inr (), w\<lparr>acquired := Suc (acquired w)\<rparr>))"

definition release :: "env \<Rightarrow> unit io" where
  "release e w =
     (case release_error e of
        Some x \<Rightarrow> (Inl x, w)
      | None \<Rightarrow> (Inr (), w\<lparr>released := Suc (released w)\<rparr>))"

text \<open>\<^verbatim>\<open>SELECT id from omnivore.discover_feed where link = $1\<close>: the rows carry the id
  column alone.\<close>

definition id_only :: "DiscoverFeed \<Rightarrow> DiscoverFeed" where
  "id_only r = \<lparr> feed_id = feed_id r, feed_title = JUndefined, feed_link = JUndefined,
                 feed_image = JUndefined, feed_type = JUndefined,
                 feed_description = JUndefined \<rparr>"

definition feeds_with_link :: "string \<Rightarrow> world \<Rightarrow> DiscoverFeed list" where
  "feeds_with_link url w = filter (\<lambda>r. feed_link r = JStr url) (discover_feed w)"

definition select_feed_id_by_link :: "env \<Rightarrow> string \<Rightarrow> DiscoverFeed list io" where
  "select_feed_id_by_link e url w =
     (case query_error e (SelectFeedIdByLink url) of
        Some x \<Rightarrow> (Inl x, w)
      | None \<Rightarrow> (Inr (map id_only (feeds_with_link url w)), w))"

text \<open>\<^verbatim>\<open>SELECT * FROM omnivore.discover_feed_subscription WHERE user_id = $1 and
  feed_id = $2\<close>.\<close>

definition select_subscription :: "env \<Rightarrow> string \<Rightarrow> jsval \<Rightarrow> subscription list io" where
  "select_subscription e userId feedId w =
     (case query_error e (SelectSubscription userId feedId) of
        Some x \<Rightarrow> (Inl x, w)
      | None \<Rightarrow>
          (Inr (filter (\<lambda>s. sub_user_id s = userId \<and> sub_feed_id s = feedId)
                  (discover_feed_subscription w)), w))"

definition insert_subscription :: "env \<Rightarrow> jsval \<Rightarrow> string \<Rightarrow> unit io" where
  "insert_subscription e feedId userId w =
     (case query_error e (InsertSubscription feedId userId) of
        Some x \<Rightarrow> (Inl x, w)
      | None \<Rightarrow>
          (Inr (), w\<lparr>discover_feed_subscription :=
                      discover_feed_subscription w
                        @ [\<lparr>sub_feed_id = feedId, sub_user_id = userId\<rparr>]\<rparr>))"

definition insert_feed :: "env \<Rightarrow> DiscoverFeed \<Rightarrow> unit io" where
  "insert_feed e row w =
     (case query_error e (InsertFeed row) of
        Some x \<Rightarrow> (Inl x, w)
      | None \<Rightarrow> (Inr (), w\<lparr>discover_feed := discover_feed w @ [row]\<rparr>))"

definition parse :: "env \<Rightarrow> string \<Rightarrow> jsval io" where
  "parse e content w = (parser_parse e content, w\<lparr>parse_calls := parse_calls w @ [content]\<rparr>)"

definition entityCreated :: "env \<Rightarrow> EntityType \<Rightarrow> DiscoverFeed \<Rightarrow> string \<Rightarrow> string \<Rightarrow> unit io" where
  "entityCreated e kind feed libraryItemId ownerId w =
     (let w' = w\<lparr>entityCreated_calls := entityCreated_calls w
                   @ [\<lparr>event_kind = kind, event_feed = feed,
                       event_libraryItemId = libraryItemId, event_owner = ownerId\<rparr>]\<rparr>
      in case entityCreated_error e of Some x \<Rightarrow> (Inl x, w') | None \<Rightarrow> (Inr (), w'))"

section \<open>The resolver\<close>

text \<open>Lines 61 to 89.\<close>

definition handleExistingSubscription :: "env \<Rightarrow> DiscoverFeed \<Rightarrow> string \<Rightarrow> result io" where
  "handleExistingSubscription e feed userId =
     bindIO (select_subscription e userId (feed_id feed)) (\<lambda>rows.
       if js_gt (array_to_number rows) 1
       then bindIO (release e) (\<lambda>_. returnIO (AddDiscoverFeedError [Conflict]))
       else bindIO (insert_subscription e (feed_id feed) userId) (\<lambda>_.
              returnIO (AddDiscoverFeedSuccess feed)))"

text \<open>Lines 91 to 156.\<close>

definition addNewSubscription :: "env \<Rightarrow> string \<Rightarrow> string \<Rightarrow> result io" where
  "addNewSubscription e url userId =
     bindIO (liftE (axios_get e url)) (\<lambda>response.
       if \<not> isXML (content_type response)
       then returnIO (AddDiscoverFeedError [BadRequest])
       else
     bindIO (parse e (response_data response)) (\<lambda>parsedFeed.
     bindIO (liftE (no_feed_root parsedFeed)) (\<lambda>none.
       if none
       then returnIO (AddDiscoverFeedError [BadRequest])
       else
     bindIO (liftE (extractFeed url parsedFeed)) (\<lambda>feed.
       if \<not> truthy (feed_title feed)
       then returnIO (AddDiscoverFeedError [BadRequest])
       else
     bindIO (insert_feed e (feed\<lparr>feed_id := JStr (v4 e)\<rparr>)) (\<lambda>_.
     bindIO (insert_subscription e (JStr (v4 e)) userId) (\<lambda>_.
     bindIO (release e) (\<lambda>_.
       returnIO (AddDiscoverFeedSuccess (feed\<lparr>feed_id := JStr (v4 e)\<rparr>)))))))))"

text \<open>
  Lines 163 to 190, the body of the \<^verbatim>\<open>try\<close> block. The wrapper
  \<^verbatim>\<open>authorized\<close> of \<^verbatim>\<open>gql-utils\<close>, which is not part of the file, supplies
  \<^verbatim>\<open>uid\<close>, \<^verbatim>\<open>log\<close> and \<^verbatim>\<open>pubsub\<close>; the model is the function it wraps.
  The test \<^verbatim>\<open>existingFeed.rows.length > 0\<close> guards the read of \<^verbatim>\<open>rows[0]\<close>.
\<close>

definition resolver_body :: "env \<Rightarrow> string \<Rightarrow> string \<Rightarrow> result io" where
  "resolver_body e url uid =
     bindIO (connect e) (\<lambda>_.
     bindIO (select_feed_id_by_link e url) (\<lambda>rows.
       if length rows > 0
       then handleExistingSubscription e (hd rows) uid
       else
     bindIO (addNewSubscription e url uid) (\<lambda>result.
       case result of
         AddDiscoverFeedSuccess feed \<Rightarrow>
           bindIO (entityCreated e RSS_FEED feed ''NA'' uid) (\<lambda>_. returnIO result)
       | AddDiscoverFeedError codes \<Rightarrow> returnIO result)))"

text \<open>Lines 163 to 198: the \<^verbatim>\<open>catch\<close> logs the error and answers Unauthorized.\<close>

definition addDiscoverFeedResolver :: "env \<Rightarrow> string \<Rightarrow> string \<Rightarrow> world \<Rightarrow> result \<times> world" where
  "addDiscoverFeedResolver e url uid w =
     (case resolver_body e url uid w of
        (Inr r, w') \<Rightarrow> (r, w')
      | (Inl x, w') \<Rightarrow>
          (AddDiscoverFeedError [Unauthorized], w'\<lparr>error_log := error_log w' @ [x]\<rparr>))"

text \<open>Calls one after another, each with its own collaborators' behaviour.\<close>

fun run :: "(env \<times> string \<times> string) list \<Rightarrow> world \<Rightarrow> result list \<times> world" where
  "run [] w = ([], w)"
| "run ((e, url, uid) # cs) w =
     (case addDiscoverFeedResolver e url uid w of
        (r, w') \<Rightarrow> (case run cs w' of (rs, w'') \<Rightarrow> (r # rs, w'')))"

section \<open>Properties stated in the words of the specification\<close>

text \<open>At most one Feed row per canonical link.\<close>

definition links_unique :: "world \<Rightarrow> bool" where
  "links_unique w = distinct (map feed_link (discover_feed w))"

text \<open>
  A content type that indicates \<^verbatim>\<open>rss+xml\<close>, \<^verbatim>\<open>atom+xml\<close> or generic
  \<^verbatim>\<open>xml\<close>, read as widely as the words allow: the type names one of the three.
\<close>

definition declares_xml :: "string option \<Rightarrow> bool" where
  "declares_xml contentType =
     (case contentType of
        None \<Rightarrow> False
      | Some ct \<Rightarrow> str_includes ct ''rss+xml'' \<or> str_includes ct ''atom+xml''
                 \<or> str_includes ct ''xml'')"

section \<open>Sample inputs\<close>

text \<open>Collaborators that never raise, answering every request with the given response
  and every parse with the given tree.\<close>

definition calm :: "response \<Rightarrow> jsval \<Rightarrow> env" where
  "calm resp doc = \<lparr> connect_error = None, query_error = (\<lambda>q. None), release_error = None,
      axios_get = (\<lambda>u. Inr resp), parser_parse = (\<lambda>c. Inr doc),
      entityCreated_error = None, v4 = ''id-1'' \<rparr>"

definition empty_world :: world where
  "empty_world = \<lparr> discover_feed = [], discover_feed_subscription = [], acquired = 0,
      released = 0, parse_calls = [], entityCreated_calls = [], error_log = [] \<rparr>"

text \<open>The tree of \<^verbatim>\<open><rss><channel><title>Daily</title><description>News</description>
  </channel></rss>\<close>.\<close>

definition rss_sample :: jsval where
  "rss_sample = JObj [(''rss'', JObj [(''channel'',
      JObj [(''title'', JStr ''Daily''), (''description'', JStr ''News'')])])]"

definition xml_response :: response where
  "xml_response =
     \<lparr> response_data = ''<rss>...</rss>'', content_type = Some ''application/xml'' \<rparr>"

definition html_response :: response where
  "html_response =
     \<lparr> response_data = ''<rss>...</rss>'', content_type = Some ''text/html'' \<rparr>"

definition known_feed :: DiscoverFeed where
  "known_feed = \<lparr> feed_id = JStr ''f1'', feed_title = JStr ''Daily'',
      feed_link = JStr ''http://a/feed'', feed_image = JUndefined, feed_type = JStr ''rss'',
      feed_description = JStr ''News'' \<rparr>"

text \<open>The feed is known and user u1 already holds two subscription rows for it.\<close>

definition twice_subscribed :: world where
  "twice_subscribed = empty_world
     \<lparr> discover_feed := [known_feed],
       discover_feed_subscription :=
         [\<lparr>sub_feed_id = JStr ''f1'', sub_user_id = ''u1''\<rparr>,
          \<lparr>sub_feed_id = JStr ''f1'', sub_user_id = ''u1''\<rparr>] \<rparr>"

text \<open>The tree of an Atom document whose \<^verbatim>\<open><title></title>\<close> is empty.\<close>

definition atom_empty_title :: jsval where
  "atom_empty_title =
     JObj [(''feed'', JObj [(''title'', JStr ''''), (''subtitle'', JStr ''All the news'')])]"

text \<open>Collaborators whose HTTP request raises.\<close>

definition network_down :: env where
  "network_down =
     (calm xml_response rss_sample)\<lparr> axios_get := (\<lambda>u. Inl (Thrown ''ECONNREFUSED'')) \<rparr>"

text \<open>A root element is present in the parsed tree: the tree has the key.\<close>

definition has_root :: "jsval \<Rightarrow> string \<Rightarrow> bool" where
  "has_root parsedFeed k = (case parsedFeed of JObj kvs \<Rightarrow> map_of kvs k \<noteq> None | _ \<Rightarrow> False)"

definition rss_empty_root :: jsval where
  "rss_empty_root = JObj [(''rss'', JStr '''')]"

definition atom_sample :: jsval where
  "atom_sample = JObj [(''feed'', JObj [(''title'', JStr ''Blog''), (''icon'', JStr ''http://a/i.png'')])]"

definition rss_channel_image :: jsval where
  "rss_channel_image = JObj [(''channel'',
      JObj [(''title'', JStr ''Daily''), (''image'', JObj [(''url'', JStr ''http://a/i.png'')])])]"

definition rss_and_atom :: jsval where
  "rss_and_atom = JObj [(''rss'', JObj [(''channel'', JObj [(''title'', JStr ''Daily'')])]),
                        (''feed'', JObj [(''title'', JStr ''Blog'')])]"

definition rdf_sample :: jsval where
  "rdf_sample = JObj [(''rdf:RDF'', JObj [(''channel'', JObj [(''title'', JStr ''Wire'')]),
                                           (''image'', JObj [(''url'', JStr ''http://a/i.png'')])])]"

definition html_tree :: jsval where
  "html_tree = JObj [(''html'', JObj [(''body'', JStr ''hello'')])]"

text \<open>
  The new-feed path returns success: the connection and the feed lookup do not raise,
  the lookup finds no row, and \<^verbatim>\<open>addNewSubscription\<close> returns a success; the value is
  its feed and the world it leaves.
\<close>

definition new_feed_success :: "env \<Rightarrow> string \<Rightarrow> string \<Rightarrow> world \<Rightarrow> (DiscoverFeed \<times> world) option" where
  "new_feed_success e url uid w =
     (case connect e w of
        (Inl x, w1) \<Rightarrow> None
      | (Inr u, w1) \<Rightarrow>
          (case select_feed_id_by_link e url w1 of
             (Inr [], w2) \<Rightarrow>
               (case addNewSubscription e url uid w2 of
                  (Inr (AddDiscoverFeedSuccess f), w3) \<Rightarrow> Some (f, w3)
                | _ \<Rightarrow> None)
           | _ \<Rightarrow> None))"

definition publisher_down :: env where
  "publisher_down =
     (calm xml_response rss_sample)\<lparr> entityCreated_error := Some (Thrown ''pubsub'') \<rparr>"

definition daily_feed :: DiscoverFeed where
  "daily_feed = \<lparr> feed_id = JStr ''id-1'', feed_title = JStr ''Daily'',
      feed_link = JStr ''http://a/feed'', feed_image = JUndefined, feed_type = JStr ''rss'',
      feed_description = JStr ''News'' \<rparr>"

definition published :: "DiscoverFeed \<Rightarrow> string \<Rightarrow> world \<Rightarrow> world" where
  "published f uid w = w\<lparr>entityCreated_calls := entityCreated_calls w
      @ [\<lparr>event_kind = RSS_FEED, event_feed = f, event_libraryItemId = ''NA'',
          event_owner = uid\<rparr>]\<rparr>"

text \<open>The same URL discovered by user u1, then by user u2, then by u1 again.\<close>

definition three_discoveries :: "(env \<times> string \<times> string) list" where
  "three_discoveries =
     [(calm xml_response rss_sample, ''http://a/feed'', ''u1''),
      (calm xml_response rss_sample, ''http://a/feed'', ''u2''),
      (calm xml_response rss_sample, ''http://a/feed'', ''u1'')]"

text \<open>
  The exception \<^verbatim>\<open>x\<close> was caught at the outer boundary: the call answers
  Unauthorized and \<^verbatim>\<open>x\<close> is the one entry added to the error log.
\<close>

definition caught :: "env \<Rightarrow> string \<Rightarrow> string \<Rightarrow> world \<Rightarrow> exn \<Rightarrow> bool" where
  "caught e url uid w x =
     (fst (addDiscoverFeedResolver e url uid w) = AddDiscoverFeedError [Unauthorized]
      \<and> error_log (snd (addDiscoverFeedResolver e url uid w)) = error_log w @ [x])"

text \<open>A store that refuses every insert of a subscription.\<close>

definition insert_refused :: env where
  "insert_refused =
     (calm xml_response rss_sample)
       \<lparr> query_error := (\<lambda>q. case q of
            InsertSubscription feedId userId \<Rightarrow> Some (Thrown ''duplicate key'')
          | _ \<Rightarrow> None) \<rparr>"

section \<open>Unfolding the model\<close>

lemmas io_defs = bindIO_def returnIO_def liftE_def connect_def release_def
  select_feed_id_by_link_def select_subscription_def insert_subscription_def insert_feed_def
  parse_def entityCreated_def Let_def

lemmas resolver_defs = addDiscoverFeedResolver_def resolver_body_def addNewSubscription_def
  handleExistingSubscription_def array_to_number_def

lemmas sample_defs = calm_def empty_world_def rss_sample_def xml_response_def
  html_response_def known_feed_def twice_subscribed_def

lemmas extract_defs = no_feed_root_def extractFeed_def rss_or_rdf_def extractRssData_def
  extractAtomData_def opt_member_def bindE_def nullish_coalesce_def

lemma feeds_with_link_acquired [simp]:
  "feeds_with_link url (w\<lparr>acquired := n\<rparr>) = feeds_with_link url w"
  by (simp add: feeds_with_link_def)

lemma str_includes_sublist: "str_includes s t = sublist t s"
  by (induction s) (auto simp: sublist_Cons_right)

lemma str_includes_trans:
  "str_includes s t \<Longrightarrow> str_includes t u \<Longrightarrow> str_includes s u"
  unfolding str_includes_sublist by (rule sublist_order.order_trans)

text \<open>Whatever the source accepts names one of the three types.\<close>

lemma isXML_declares_xml: "isXML ct \<Longrightarrow> declares_xml ct"
proof (cases ct)
  case None
  then show "isXML ct \<Longrightarrow> declares_xml ct" by (simp add: isXML_def)
next
  case (Some s)
  have a: "str_includes ''text/rss+xml'' ''rss+xml''" by simp
  have b: "str_includes ''text/atom+xml'' ''atom+xml''" by simp
  have c: "str_includes ''application/xml'' ''xml''" by simp
  assume "isXML ct"
  with Some have "str_includes s ''text/rss+xml'' \<or> str_includes s ''text/atom+xml''
      \<or> str_includes s ''application/xml''"
    by (simp add: isXML_def)
  then have "str_includes s ''rss+xml'' \<or> str_includes s ''atom+xml'' \<or> str_includes s ''xml''"
    using a b c str_includes_trans by blast
  with Some show "declares_xml ct" by (simp add: declares_xml_def)
qed

text \<open>The body of the resolver with its first two steps unfolded.\<close>

lemma resolver_body_unfold:
  "resolver_body e url uid w =
     (case connect_error e of
        Some x \<Rightarrow> (Inl x, w)
      | None \<Rightarrow>
          (case query_error e (SelectFeedIdByLink url) of
             Some x \<Rightarrow> (Inl x, w\<lparr>acquired := Suc (acquired w)\<rparr>)
           | None \<Rightarrow>
               if feeds_with_link url w \<noteq> []
               then handleExistingSubscription e (id_only (hd (feeds_with_link url w))) uid
                      (w\<lparr>acquired := Suc (acquired w)\<rparr>)
               else
                 (case addNewSubscription e url uid (w\<lparr>acquired := Suc (acquired w)\<rparr>) of
                    (Inl x, w1) \<Rightarrow> (Inl x, w1)
                  | (Inr (AddDiscoverFeedError codes), w1) \<Rightarrow>
                      (Inr (AddDiscoverFeedError codes), w1)
                  | (Inr (AddDiscoverFeedSuccess f), w1) \<Rightarrow>
                      (case entityCreated_error e of
                         Some x \<Rightarrow> (Inl x, published f uid w1)
                       | None \<Rightarrow> (Inr (AddDiscoverFeedSuccess f), published f uid w1)))))"
  by (simp add: resolver_body_def bindIO_def returnIO_def connect_def
      select_feed_id_by_link_def hd_map entityCreated_def published_def
      split: option.splits sum.splits prod.splits result.splits)

lemma addNewSubscription_calls:
  "entityCreated_calls (snd (addNewSubscription e url uid w)) = entityCreated_calls w"
  by (simp add: addNewSubscription_def io_defs split: option.splits sum.splits)

lemma handleExistingSubscription_calls:
  "entityCreated_calls (snd (handleExistingSubscription e feed uid w)) = entityCreated_calls w"
  by (simp add: handleExistingSubscription_def array_to_number_def io_defs
      split: option.splits sum.splits)

lemma addNewSubscription_success:
  "addNewSubscription e url uid w = (Inr (AddDiscoverFeedSuccess f), w1) \<Longrightarrow>
     discover_feed w1 = discover_feed w @ [f]
     \<and> discover_feed_subscription w1
         = discover_feed_subscription w @ [\<lparr>sub_feed_id = feed_id f, sub_user_id = uid\<rparr>]"
  by (auto simp add: addNewSubscription_def io_defs split: option.splits sum.splits if_splits)

section \<open>The subscription conflict\<close>

text \<open>
  The comparison of line 72 is never true, so no call answers Conflict, whatever the
  collaborators do and whatever rows the store holds.
\<close>

lemma resolver_never_conflict:
  "fst (addDiscoverFeedResolver e url uid w) \<noteq> AddDiscoverFeedError [Conflict]"
  by (auto simp add: resolver_defs io_defs
     split: option.splits sum.splits if_splits result.splits prod.splits)

text \<open>
  C1. The claim: when the URL maps to a known feed and more than one subscription row
  exists for the caller and that feed, the call fails with Conflict. The code at such an
  input: with two rows already present for user u1 and the known feed, the call succeeds
  and adds a third row.
\<close>

theorem existing_duplicates_still_succeed:
  "fst (addDiscoverFeedResolver (calm xml_response rss_sample) ''http://a/feed'' ''u1''
          twice_subscribed)
     = AddDiscoverFeedSuccess \<lparr> feed_id = JStr ''f1'', feed_title = JUndefined,
         feed_link = JUndefined, feed_image = JUndefined, feed_type = JUndefined,
         feed_description = JUndefined \<rparr>
   \<and> length (discover_feed_subscription
        (snd (addDiscoverFeedResolver (calm xml_response rss_sample) ''http://a/feed'' ''u1''
                twice_subscribed))) = 3"
  by (simp add: resolver_defs io_defs sample_defs feeds_with_link_def id_only_def)

section \<open>The content-type gate\<close>

text \<open>
  C4. On the new-feed path, a response whose content type names none of
  \<^verbatim>\<open>rss+xml\<close>, \<^verbatim>\<open>atom+xml\<close> and \<^verbatim>\<open>xml\<close> (or has no content type) is
  answered with BadRequest; the body is not handed to the parser and neither table changes.
\<close>

theorem content_type_gate:
  assumes "connect_error e = None"
    and "query_error e (SelectFeedIdByLink url) = None"
    and "feeds_with_link url w = []"
    and "axios_get e url = Inr resp"
    and "\<not> declares_xml (content_type resp)"
  shows "fst (addDiscoverFeedResolver e url uid w) = AddDiscoverFeedError [BadRequest]
       \<and> discover_feed (snd (addDiscoverFeedResolver e url uid w)) = discover_feed w
       \<and> discover_feed_subscription (snd (addDiscoverFeedResolver e url uid w))
           = discover_feed_subscription w
       \<and> parse_calls (snd (addDiscoverFeedResolver e url uid w)) = parse_calls w"
proof -
  from assms(5) have "\<not> isXML (content_type resp)"
    using isXML_declares_xml by blast
  with assms(1-4) show ?thesis
    by (simp add: resolver_defs io_defs)
qed

text \<open>The gate at \<^verbatim>\<open>text/html\<close>, with a parser that would accept the body as RSS.\<close>

theorem content_type_gate_witness:
  "\<not> declares_xml (content_type html_response)
   \<and> fst (addDiscoverFeedResolver (calm html_response rss_sample) ''http://a/feed'' ''u1''
          empty_world) = AddDiscoverFeedError [BadRequest]
   \<and> parse_calls (snd (addDiscoverFeedResolver (calm html_response rss_sample)
          ''http://a/feed'' ''u1'' empty_world)) = []"
proof -
  have h: "\<not> declares_xml (content_type html_response)"
    by (simp add: declares_xml_def html_response_def)
  have e1: "connect_error (calm html_response rss_sample) = None"
    and e2: "query_error (calm html_response rss_sample)
               (SelectFeedIdByLink ''http://a/feed'') = None"
    and e3: "feeds_with_link ''http://a/feed'' empty_world = []"
    and e4: "axios_get (calm html_response rss_sample) ''http://a/feed'' = Inr html_response"
    by (simp_all add: calm_def empty_world_def feeds_with_link_def)
  show ?thesis
    using h content_type_gate [OF e1 e2 e3 e4 h, of "''u1''"]
    by (simp add: empty_world_def)
qed

section \<open>Releasing the connection\<close>

text \<open>
  C7. The claim: the connection acquired by a call is released on every exit path. The
  code on the BadRequest path of the content-type check: one connection acquired, none
  released.
\<close>

theorem bad_request_leaves_connection_open:
  "fst (addDiscoverFeedResolver (calm html_response rss_sample) ''http://a/feed'' ''u1''
          empty_world) = AddDiscoverFeedError [BadRequest]
   \<and> acquired (snd (addDiscoverFeedResolver (calm html_response rss_sample) ''http://a/feed''
          ''u1'' empty_world)) = 1
   \<and> released (snd (addDiscoverFeedResolver (calm html_response rss_sample) ''http://a/feed''
          ''u1'' empty_world)) = 0"
  by (simp add: resolver_defs io_defs sample_defs feeds_with_link_def isXML_def)

section \<open>The title is required\<close>

text \<open>
  C3. On the new-feed path, when the document is of a recognised format (RSS, RDF or
  Atom) and the title resolved by the extraction, URL fallback included, is empty (or any
  other value that \<^verbatim>\<open>!feed.title\<close> rejects), the call answers BadRequest and
  inserts neither a Feed row nor a Subscription row.
\<close>

theorem title_required:
  assumes "connect_error e = None"
    and "query_error e (SelectFeedIdByLink url) = None"
    and "feeds_with_link url w = []"
    and "axios_get e url = Inr resp"
    and "isXML (content_type resp)"
    and "parser_parse e (response_data resp) = Inr doc"
    and "no_feed_root doc = Inr False"
    and "extractFeed url doc = Inr feed"
    and "\<not> truthy (feed_title feed)"
  shows "fst (addDiscoverFeedResolver e url uid w) = AddDiscoverFeedError [BadRequest]
       \<and> discover_feed (snd (addDiscoverFeedResolver e url uid w)) = discover_feed w
       \<and> discover_feed_subscription (snd (addDiscoverFeedResolver e url uid w))
           = discover_feed_subscription w"
  using assms by (simp add: resolver_defs io_defs)

text \<open>A valid Atom document with an empty title is answered with BadRequest.\<close>

theorem title_required_witness:
  "extractFeed ''http://a/feed'' atom_empty_title
     = Inr \<lparr> feed_id = JUndefined, feed_title = JStr '''', feed_link = JStr ''http://a/feed'',
             feed_image = JUndefined, feed_type = JStr ''atom'',
             feed_description = JStr ''All the news'' \<rparr>
   \<and> addDiscoverFeedResolver (calm xml_response atom_empty_title) ''http://a/feed'' ''u1'' empty_world
       = (AddDiscoverFeedError [BadRequest],
          empty_world\<lparr>acquired := 1, parse_calls := [''<rss>...</rss>'']\<rparr>)"
proof -
  let ?e = "calm xml_response atom_empty_title"
  let ?f = "\<lparr> feed_id = JUndefined, feed_title = JStr '''', feed_link = JStr ''http://a/feed'',
             feed_image = JUndefined, feed_type = JStr ''atom'',
             feed_description = JStr ''All the news'' \<rparr>"
  have e1: "connect_error ?e = None"
    and e2: "query_error ?e (SelectFeedIdByLink ''http://a/feed'') = None"
    and e3: "feeds_with_link ''http://a/feed'' empty_world = []"
    and e4: "axios_get ?e ''http://a/feed'' = Inr xml_response"
    and e5: "isXML (content_type xml_response)"
    and e6: "parser_parse ?e (response_data xml_response) = Inr atom_empty_title"
    by (simp_all add: calm_def empty_world_def feeds_with_link_def xml_response_def isXML_def)
  have e7: "no_feed_root atom_empty_title = Inr False"
    by (simp add: atom_empty_title_def extract_defs)
  have e8: "extractFeed ''http://a/feed'' atom_empty_title = Inr ?f"
    by (simp add: atom_empty_title_def extract_defs)
  have e9: "\<not> truthy (feed_title ?f)" by simp
  have r: "fst (addDiscoverFeedResolver ?e ''http://a/feed'' ''u1'' empty_world) = AddDiscoverFeedError [BadRequest]"
    using title_required [OF e1 e2 e3 e4 e5 e6 e7 e8 e9, of "''u1''"] by simp
  have s: "snd (addDiscoverFeedResolver ?e ''http://a/feed'' ''u1'' empty_world)
     = empty_world\<lparr>acquired := 1, parse_calls := [''<rss>...</rss>'']\<rparr>"
    by (simp add: resolver_defs io_defs sample_defs feeds_with_link_def isXML_def
        atom_empty_title_def extract_defs)
  show ?thesis using e8 r s by (simp add: prod_eq_iff)
qed

section \<open>The outer boundary\<close>

lemma resolver_body_error_log:
  "error_log (snd (resolver_body e url uid w)) = error_log w"
  by (auto simp add: resolver_defs io_defs Let_def
     split: option.splits sum.splits if_splits result.splits prod.splits)

lemma resolver_body_never_unauthorized:
  "fst (resolver_body e url uid w) \<noteq> Inr (AddDiscoverFeedError [Unauthorized])"
  by (auto simp add: resolver_defs io_defs
     split: option.splits sum.splits if_splits result.splits prod.splits)

lemma resolver_result:
  "fst (addDiscoverFeedResolver e url uid w)
     = (case fst (resolver_body e url uid w) of
          Inl x \<Rightarrow> AddDiscoverFeedError [Unauthorized] | Inr r \<Rightarrow> r)"
  by (simp add: addDiscoverFeedResolver_def split: prod.splits sum.splits)

lemma resolver_log:
  "error_log (snd (addDiscoverFeedResolver e url uid w))
     = error_log w @ (case fst (resolver_body e url uid w) of Inl x \<Rightarrow> [x] | Inr r \<Rightarrow> [])"
proof -
  have "error_log (snd (addDiscoverFeedResolver e url uid w))
       = error_log (snd (resolver_body e url uid w))
          @ (case fst (resolver_body e url uid w) of Inl x \<Rightarrow> [x] | Inr r \<Rightarrow> [])"
    by (simp add: addDiscoverFeedResolver_def split: prod.splits sum.splits)
  then show ?thesis by (simp add: resolver_body_error_log)
qed

lemma caught_iff: "caught e url uid w x \<longleftrightarrow> fst (resolver_body e url uid w) = Inl x"
  using resolver_body_never_unauthorized [of e url uid w]
  by (auto simp add: caught_def resolver_result resolver_log split: sum.splits)

lemma unauthorized_iff_logged:
  "fst (addDiscoverFeedResolver e url uid w) = AddDiscoverFeedError [Unauthorized]
     \<longleftrightarrow> (\<exists>x. caught e url uid w x)"
  using resolver_body_never_unauthorized [of e url uid w]
  by (auto simp add: caught_def resolver_result resolver_log split: sum.splits)

lemma quiet_log:
  "fst (addDiscoverFeedResolver e url uid w) \<noteq> AddDiscoverFeedError [Unauthorized]
     \<Longrightarrow> error_log (snd (addDiscoverFeedResolver e url uid w)) = error_log w"
  by (auto simp add: resolver_result resolver_log split: sum.splits)

lemma caught_existing:
  assumes "connect_error e = None" and "query_error e (SelectFeedIdByLink url) = None"
    and "feeds_with_link url w = r # rest"
  shows "query_error e (SelectSubscription uid (feed_id r)) = Some x \<Longrightarrow> caught e url uid w x"
    and "query_error e (SelectSubscription uid (feed_id r)) = None \<Longrightarrow>
         query_error e (InsertSubscription (feed_id r) uid) = Some x \<Longrightarrow> caught e url uid w x"
  using assms
  by (simp_all add: caught_iff resolver_body_unfold handleExistingSubscription_def
      array_to_number_def id_only_def io_defs)

lemma caught_new:
  assumes "connect_error e = None" and "query_error e (SelectFeedIdByLink url) = None"
    and "feeds_with_link url w = []"
  shows "axios_get e url = Inl x \<Longrightarrow> caught e url uid w x"
    and "axios_get e url = Inr resp \<Longrightarrow> isXML (content_type resp) \<Longrightarrow>
         parser_parse e (response_data resp) = Inl x \<Longrightarrow> caught e url uid w x"
    and "axios_get e url = Inr resp \<Longrightarrow> isXML (content_type resp) \<Longrightarrow>
         parser_parse e (response_data resp) = Inr doc \<Longrightarrow> no_feed_root doc = Inl x \<Longrightarrow>
         caught e url uid w x"
    and "axios_get e url = Inr resp \<Longrightarrow> isXML (content_type resp) \<Longrightarrow>
         parser_parse e (response_data resp) = Inr doc \<Longrightarrow> no_feed_root doc = Inr False \<Longrightarrow>
         extractFeed url doc = Inl x \<Longrightarrow> caught e url uid w x"
  using assms
  by (simp_all add: caught_iff resolver_body_unfold addNewSubscription_def io_defs)

lemma caught_new_store:
  assumes "connect_error e = None" and "query_error e (SelectFeedIdByLink url) = None"
    and "feeds_with_link url w = []"
    and "axios_get e url = Inr resp" and "isXML (content_type resp)"
    and "parser_parse e (response_data resp) = Inr doc" and "no_feed_root doc = Inr False"
    and "extractFeed url doc = Inr feed" and "truthy (feed_title feed)"
  shows "query_error e (InsertFeed (feed\<lparr>feed_id := JStr (v4 e)\<rparr>)) = Some x \<Longrightarrow>
         caught e url uid w x"
    and "query_error e (InsertFeed (feed\<lparr>feed_id := JStr (v4 e)\<rparr>)) = None \<Longrightarrow>
         query_error e (InsertSubscription (JStr (v4 e)) uid) = Some x \<Longrightarrow>
         caught e url uid w x"
    and "query_error e (InsertFeed (feed\<lparr>feed_id := JStr (v4 e)\<rparr>)) = None \<Longrightarrow>
         query_error e (InsertSubscription (JStr (v4 e)) uid) = None \<Longrightarrow>
         release_error e = Some x \<Longrightarrow> caught e url uid w x"
    and "query_error e (InsertFeed (feed\<lparr>feed_id := JStr (v4 e)\<rparr>)) = None \<Longrightarrow>
         query_error e (InsertSubscription (JStr (v4 e)) uid) = None \<Longrightarrow>
         release_error e = None \<Longrightarrow> entityCreated_error e = Some x \<Longrightarrow>
         caught e url uid w x"
  using assms
  by (simp_all add: caught_iff resolver_body_unfold addNewSubscription_def io_defs)

text \<open>
  C8. The resolver has a result for every input and every behaviour of the network, the
  parser, the store and the publisher: a success, or a failure with exactly one of the
  codes BadRequest, Conflict and Unauthorized. Whatever is raised inside the body is caught:
  it is logged once and answered with Unauthorized, and Unauthorized is answered in no
  other case. This holds for each step that can raise: connecting, the feed lookup, the
  subscription lookup and the subscription insert of the existing-feed path, and on the
  new-feed path the HTTP request, the parser, the TypeError of the reads of the parsed
  tree, the feed insert, the subscription insert, the release and the publication.
\<close>

theorem closed_error_vocabulary:
  "((\<exists>f. fst (addDiscoverFeedResolver e url uid w) = AddDiscoverFeedSuccess f)
     \<or> fst (addDiscoverFeedResolver e url uid w) = AddDiscoverFeedError [BadRequest]
     \<or> fst (addDiscoverFeedResolver e url uid w) = AddDiscoverFeedError [Conflict]
     \<or> fst (addDiscoverFeedResolver e url uid w) = AddDiscoverFeedError [Unauthorized])
   \<and> (\<forall>x. fst (resolver_body e url uid w) = Inl x \<longrightarrow> caught e url uid w x)
   \<and> ((fst (addDiscoverFeedResolver e url uid w) = AddDiscoverFeedError [Unauthorized])
        = (\<exists>x. caught e url uid w x))
   \<and> (fst (addDiscoverFeedResolver e url uid w) \<noteq> AddDiscoverFeedError [Unauthorized] \<longrightarrow>
        error_log (snd (addDiscoverFeedResolver e url uid w)) = error_log w)
   \<and> (\<forall>x. connect_error e = Some x \<longrightarrow> caught e url uid w x)
   \<and> (\<forall>x. connect_error e = None \<and> query_error e (SelectFeedIdByLink url) = Some x \<longrightarrow>
        caught e url uid w x)
   \<and> (\<forall>x r rest. connect_error e = None \<and> query_error e (SelectFeedIdByLink url) = None
          \<and> feeds_with_link url w = r # rest
          \<and> query_error e (SelectSubscription uid (feed_id r)) = Some x \<longrightarrow>
        caught e url uid w x)
   \<and> (\<forall>x r rest. connect_error e = None \<and> query_error e (SelectFeedIdByLink url) = None
          \<and> feeds_with_link url w = r # rest
          \<and> query_error e (SelectSubscription uid (feed_id r)) = None
          \<and> query_error e (InsertSubscription (feed_id r) uid) = Some x \<longrightarrow>
        caught e url uid w x)
   \<and> (\<forall>x. connect_error e = None \<and> query_error e (SelectFeedIdByLink url) = None
          \<and> feeds_with_link url w = [] \<and> axios_get e url = Inl x \<longrightarrow>
        caught e url uid w x)
   \<and> (\<forall>x resp. connect_error e = None \<and> query_error e (SelectFeedIdByLink url) = None
          \<and> feeds_with_link url w = [] \<and> axios_get e url = Inr resp
          \<and> isXML (content_type resp) \<and> parser_parse e (response_data resp) = Inl x \<longrightarrow>
        caught e url uid w x)
   \<and> (\<forall>x resp doc. connect_error e = None \<and> query_error e (SelectFeedIdByLink url) = None
          \<and> feeds_with_link url w = [] \<and> axios_get e url = Inr resp
          \<and> isXML (content_type resp) \<and> parser_parse e (response_data resp) = Inr doc
          \<and> (no_feed_root doc = Inl x
              \<or> no_feed_root doc = Inr False \<and> extractFeed url doc = Inl x) \<longrightarrow>
        caught e url uid w x)
   \<and> (\<forall>x resp doc feed. connect_error e = None
          \<and> query_error e (SelectFeedIdByLink url) = None
          \<and> feeds_with_link url w = [] \<and> axios_get e url = Inr resp
          \<and> isXML (content_type resp) \<and> parser_parse e (response_data resp) = Inr doc
          \<and> no_feed_root doc = Inr False \<and> extractFeed url doc = Inr feed
          \<and> truthy (feed_title feed)
          \<and> (query_error e (InsertFeed (feed\<lparr>feed_id := JStr (v4 e)\<rparr>)) = Some x
              \<or> query_error e (InsertFeed (feed\<lparr>feed_id := JStr (v4 e)\<rparr>)) = None
                \<and> (query_error e (InsertSubscription (JStr (v4 e)) uid) = Some x
                    \<or> query_error e (InsertSubscription (JStr (v4 e)) uid) = None
                      \<and> (release_error e = Some x
                          \<or> release_error e = None \<and> entityCreated_error e = Some x))) \<longrightarrow>
        caught e url uid w x)"
proof -
  have voc: "(\<exists>f. fst (addDiscoverFeedResolver e url uid w) = AddDiscoverFeedSuccess f)
     \<or> fst (addDiscoverFeedResolver e url uid w) = AddDiscoverFeedError [BadRequest]
     \<or> fst (addDiscoverFeedResolver e url uid w) = AddDiscoverFeedError [Conflict]
     \<or> fst (addDiscoverFeedResolver e url uid w) = AddDiscoverFeedError [Unauthorized]"
    by (auto simp add: resolver_defs io_defs
       split: option.splits sum.splits if_splits result.splits prod.splits)
  have body: "\<forall>x. fst (resolver_body e url uid w) = Inl x \<longrightarrow> caught e url uid w x"
    by (simp add: caught_iff)
  have iff: "(fst (addDiscoverFeedResolver e url uid w) = AddDiscoverFeedError [Unauthorized])
        = (\<exists>x. caught e url uid w x)"
    by (rule unauthorized_iff_logged)
  have quiet: "fst (addDiscoverFeedResolver e url uid w) \<noteq> AddDiscoverFeedError [Unauthorized]
        \<longrightarrow> error_log (snd (addDiscoverFeedResolver e url uid w)) = error_log w"
    using quiet_log [of e url uid w] by (rule impI)
  have c1: "\<forall>x. connect_error e = Some x \<longrightarrow> caught e url uid w x"
    by (simp add: caught_iff resolver_body_unfold)
  have c2: "\<forall>x. connect_error e = None \<and> query_error e (SelectFeedIdByLink url) = Some x \<longrightarrow>
        caught e url uid w x"
    by (simp add: caught_iff resolver_body_unfold)
  have c3: "\<forall>x r rest. connect_error e = None \<and> query_error e (SelectFeedIdByLink url) = None
          \<and> feeds_with_link url w = r # rest
          \<and> query_error e (SelectSubscription uid (feed_id r)) = Some x \<longrightarrow>
        caught e url uid w x"
    using caught_existing(1) [of e url w _ _ uid] by (intro allI impI) (elim conjE)
  have c4: "\<forall>x r rest. connect_error e = None \<and> query_error e (SelectFeedIdByLink url) = None
          \<and> feeds_with_link url w = r # rest
          \<and> query_error e (SelectSubscription uid (feed_id r)) = None
          \<and> query_error e (InsertSubscription (feed_id r) uid) = Some x \<longrightarrow>
        caught e url uid w x"
    using caught_existing(2) [of e url w _ _ uid] by (intro allI impI) (elim conjE)
  have c5: "\<forall>x. connect_error e = None \<and> query_error e (SelectFeedIdByLink url) = None
          \<and> feeds_with_link url w = [] \<and> axios_get e url = Inl x \<longrightarrow>
        caught e url uid w x"
    using caught_new(1) [of e url w _ uid] by (intro allI impI) (elim conjE)
  have c6: "\<forall>x resp. connect_error e = None \<and> query_error e (SelectFeedIdByLink url) = None
          \<and> feeds_with_link url w = [] \<and> axios_get e url = Inr resp
          \<and> isXML (content_type resp) \<and> parser_parse e (response_data resp) = Inl x \<longrightarrow>
        caught e url uid w x"
    using caught_new(2) [of e url w _ _ uid] by (intro allI impI) (elim conjE)
  have c7: "\<forall>x resp doc. connect_error e = None \<and> query_error e (SelectFeedIdByLink url) = None
          \<and> feeds_with_link url w = [] \<and> axios_get e url = Inr resp
          \<and> isXML (content_type resp) \<and> parser_parse e (response_data resp) = Inr doc
          \<and> (no_feed_root doc = Inl x
              \<or> no_feed_root doc = Inr False \<and> extractFeed url doc = Inl x) \<longrightarrow>
        caught e url uid w x"
  proof (intro allI impI)
    fix x resp doc
    assume h: "connect_error e = None \<and> query_error e (SelectFeedIdByLink url) = None
          \<and> feeds_with_link url w = [] \<and> axios_get e url = Inr resp
          \<and> isXML (content_type resp) \<and> parser_parse e (response_data resp) = Inr doc
          \<and> (no_feed_root doc = Inl x
              \<or> no_feed_root doc = Inr False \<and> extractFeed url doc = Inl x)"
    then have p: "connect_error e = None" "query_error e (SelectFeedIdByLink url) = None"
      "feeds_with_link url w = []" "axios_get e url = Inr resp" "isXML (content_type resp)"
      "parser_parse e (response_data resp) = Inr doc"
      by simp_all
    from h consider "no_feed_root doc = Inl x"
      | "no_feed_root doc = Inr False" "extractFeed url doc = Inl x"
      by auto
    then show "caught e url uid w x"
    proof cases
      case 1
      show ?thesis by (rule caught_new(3) [OF p(1-3) p(4-6) 1])
    next
      case 2
      show ?thesis by (rule caught_new(4) [OF p(1-3) p(4-6) 2])
    qed
  qed
  have c8: "\<forall>x resp doc feed. connect_error e = None
          \<and> query_error e (SelectFeedIdByLink url) = None
          \<and> feeds_with_link url w = [] \<and> axios_get e url = Inr resp
          \<and> isXML (content_type resp) \<and> parser_parse e (response_data resp) = Inr doc
          \<and> no_feed_root doc = Inr False \<and> extractFeed url doc = Inr feed
          \<and> truthy (feed_title feed)
          \<and> (query_error e (InsertFeed (feed\<lparr>feed_id := JStr (v4 e)\<rparr>)) = Some x
              \<or> query_error e (InsertFeed (feed\<lparr>feed_id := JStr (v4 e)\<rparr>)) = None
                \<and> (query_error e (InsertSubscription (JStr (v4 e)) uid) = Some x
                    \<or> query_error e (InsertSubscription (JStr (v4 e)) uid) = None
                      \<and> (release_error e = Some x
                          \<or> release_error e = None \<and> entityCreated_error e = Some x))) \<longrightarrow>
        caught e url uid w x"
  proof (intro allI impI)
    fix x resp doc feed
    assume h: "connect_error e = None
          \<and> query_error e (SelectFeedIdByLink url) = None
          \<and> feeds_with_link url w = [] \<and> axios_get e url = Inr resp
          \<and> isXML (content_type resp) \<and> parser_parse e (response_data resp) = Inr doc
          \<and> no_feed_root doc = Inr False \<and> extractFeed url doc = Inr feed
          \<and> truthy (feed_title feed)
          \<and> (query_error e (InsertFeed (feed\<lparr>feed_id := JStr (v4 e)\<rparr>)) = Some x
              \<or> query_error e (InsertFeed (feed\<lparr>feed_id := JStr (v4 e)\<rparr>)) = None
                \<and> (query_error e (InsertSubscription (JStr (v4 e)) uid) = Some x
                    \<or> query_error e (InsertSubscription (JStr (v4 e)) uid) = None
                      \<and> (release_error e = Some x
                          \<or> release_error e = None \<and> entityCreated_error e = Some x)))"
    then have p: "connect_error e = None" "query_error e (SelectFeedIdByLink url) = None"
      "feeds_with_link url w = []" "axios_get e url = Inr resp" "isXML (content_type resp)"
      "parser_parse e (response_data resp) = Inr doc" "no_feed_root doc = Inr False"
      "extractFeed url doc = Inr feed" "truthy (feed_title feed)"
      by simp_all
    note k = caught_new_store [OF p, where x = x and uid = uid]
    from h consider
        "query_error e (InsertFeed (feed\<lparr>feed_id := JStr (v4 e)\<rparr>)) = Some x"
      | "query_error e (InsertFeed (feed\<lparr>feed_id := JStr (v4 e)\<rparr>)) = None"
        "query_error e (InsertSubscription (JStr (v4 e)) uid) = Some x"
      | "query_error e (InsertFeed (feed\<lparr>feed_id := JStr (v4 e)\<rparr>)) = None"
        "query_error e (InsertSubscription (JStr (v4 e)) uid) = None"
        "release_error e = Some x"
      | "query_error e (InsertFeed (feed\<lparr>feed_id := JStr (v4 e)\<rparr>)) = None"
        "query_error e (InsertSubscription (JStr (v4 e)) uid) = None"
        "release_error e = None" "entityCreated_error e = Some x"
      by auto
    then show "caught e url uid w x"
    proof cases
      case 1
      then show ?thesis by (rule k(1))
    next
      case 2
      then show ?thesis by (rule k(2))
    next
      case 3
      then show ?thesis by (rule k(3))
    next
      case 4
      then show ?thesis by (rule k(4))
    qed
  qed
  from voc body iff quiet c1 c2 c3 c4 c5 c6 c7 c8 show ?thesis by (intro conjI)
qed

text \<open>A refused HTTP connection, a refused subscription insert for a known feed and a
  failing publisher are each logged and answered with Unauthorized.\<close>

theorem closed_error_vocabulary_witness:
  "axios_get network_down ''http://a/feed'' = Inl (Thrown ''ECONNREFUSED'')
   \<and> fst (addDiscoverFeedResolver network_down ''http://a/feed'' ''u1'' empty_world)
       = AddDiscoverFeedError [Unauthorized]
   \<and> error_log (snd (addDiscoverFeedResolver network_down ''http://a/feed'' ''u1'' empty_world))
       = [Thrown ''ECONNREFUSED'']
   \<and> query_error insert_refused (InsertSubscription (JStr ''f1'') ''u1'')
       = Some (Thrown ''duplicate key'')
   \<and> fst (addDiscoverFeedResolver insert_refused ''http://a/feed'' ''u1'' twice_subscribed)
       = AddDiscoverFeedError [Unauthorized]
   \<and> error_log (snd (addDiscoverFeedResolver insert_refused ''http://a/feed'' ''u1''
         twice_subscribed)) = [Thrown ''duplicate key'']
   \<and> entityCreated_error publisher_down = Some (Thrown ''pubsub'')
   \<and> fst (addDiscoverFeedResolver publisher_down ''http://a/feed'' ''u1'' empty_world)
       = AddDiscoverFeedError [Unauthorized]
   \<and> error_log (snd (addDiscoverFeedResolver publisher_down ''http://a/feed'' ''u1''
         empty_world)) = [Thrown ''pubsub'']"
proof -
  let ?url = "''http://a/feed''"
  have l: "error_log empty_world = []" "error_log twice_subscribed = []"
    by (simp_all add: twice_subscribed_def empty_world_def)
  have n: "axios_get network_down ?url = Inl (Thrown ''ECONNREFUSED'')"
    by (simp add: network_down_def calm_def)
  have n': "connect_error network_down = None
      \<and> query_error network_down (SelectFeedIdByLink ?url) = None
      \<and> feeds_with_link ?url empty_world = []
      \<and> axios_get network_down ?url = Inl (Thrown ''ECONNREFUSED'')"
    by (simp add: network_down_def calm_def empty_world_def feeds_with_link_def)
  from closed_error_vocabulary [of network_down ?url "''u1''" empty_world]
  have "\<forall>x. connect_error network_down = None
          \<and> query_error network_down (SelectFeedIdByLink ?url) = None
          \<and> feeds_with_link ?url empty_world = [] \<and> axios_get network_down ?url = Inl x \<longrightarrow>
        caught network_down ?url ''u1'' empty_world x"
    by (elim conjE)
  from this [rule_format, OF n']
  have a: "fst (addDiscoverFeedResolver network_down ?url ''u1'' empty_world)
       = AddDiscoverFeedError [Unauthorized]
     \<and> error_log (snd (addDiscoverFeedResolver network_down ?url ''u1'' empty_world))
       = [Thrown ''ECONNREFUSED'']"
    by (simp add: caught_def l)
  have i: "query_error insert_refused (InsertSubscription (JStr ''f1'') ''u1'')
       = Some (Thrown ''duplicate key'')"
    by (simp add: insert_refused_def calm_def)
  have i': "connect_error insert_refused = None
      \<and> query_error insert_refused (SelectFeedIdByLink ?url) = None
      \<and> feeds_with_link ?url twice_subscribed = known_feed # []
      \<and> query_error insert_refused (SelectSubscription ''u1'' (feed_id known_feed)) = None
      \<and> query_error insert_refused (InsertSubscription (feed_id known_feed) ''u1'')
          = Some (Thrown ''duplicate key'')"
    by (simp add: insert_refused_def calm_def twice_subscribed_def empty_world_def
        feeds_with_link_def known_feed_def)
  from closed_error_vocabulary [of insert_refused ?url "''u1''" twice_subscribed]
  have "\<forall>x r rest. connect_error insert_refused = None
          \<and> query_error insert_refused (SelectFeedIdByLink ?url) = None
          \<and> feeds_with_link ?url twice_subscribed = r # rest
          \<and> query_error insert_refused (SelectSubscription ''u1'' (feed_id r)) = None
          \<and> query_error insert_refused (InsertSubscription (feed_id r) ''u1'') = Some x \<longrightarrow>
        caught insert_refused ?url ''u1'' twice_subscribed x"
    by (elim conjE)
  from this [rule_format, OF i']
  have b: "fst (addDiscoverFeedResolver insert_refused ?url ''u1'' twice_subscribed)
       = AddDiscoverFeedError [Unauthorized]
     \<and> error_log (snd (addDiscoverFeedResolver insert_refused ?url ''u1'' twice_subscribed))
       = [Thrown ''duplicate key'']"
    by (simp add: caught_def l)
  have p: "entityCreated_error publisher_down = Some (Thrown ''pubsub'')"
    by (simp add: publisher_down_def calm_def)
  let ?feed = "\<lparr> feed_id = JUndefined, feed_title = JStr ''Daily'', feed_link = JStr ?url,
      feed_image = JUndefined, feed_type = JStr ''rss'', feed_description = JStr ''News'' \<rparr>"
  have p': "connect_error publisher_down = None
      \<and> query_error publisher_down (SelectFeedIdByLink ?url) = None
      \<and> feeds_with_link ?url empty_world = []
      \<and> axios_get publisher_down ?url = Inr xml_response
      \<and> isXML (content_type xml_response)
      \<and> parser_parse publisher_down (response_data xml_response) = Inr rss_sample
      \<and> no_feed_root rss_sample = Inr False \<and> extractFeed ?url rss_sample = Inr ?feed
      \<and> truthy (feed_title ?feed)
      \<and> (query_error publisher_down (InsertFeed (?feed\<lparr>feed_id := JStr (v4 publisher_down)\<rparr>))
            = Some (Thrown ''pubsub'')
          \<or> query_error publisher_down
               (InsertFeed (?feed\<lparr>feed_id := JStr (v4 publisher_down)\<rparr>)) = None
            \<and> (query_error publisher_down
                  (InsertSubscription (JStr (v4 publisher_down)) ''u1'') = Some (Thrown ''pubsub'')
                \<or> query_error publisher_down
                     (InsertSubscription (JStr (v4 publisher_down)) ''u1'') = None
                  \<and> (release_error publisher_down = Some (Thrown ''pubsub'')
                      \<or> release_error publisher_down = None
                        \<and> entityCreated_error publisher_down = Some (Thrown ''pubsub''))))"
    by (simp add: publisher_down_def calm_def empty_world_def feeds_with_link_def
        xml_response_def isXML_def rss_sample_def extract_defs)
  from closed_error_vocabulary [of publisher_down ?url "''u1''" empty_world]
  have "\<forall>x resp doc feed. connect_error publisher_down = None
          \<and> query_error publisher_down (SelectFeedIdByLink ?url) = None
          \<and> feeds_with_link ?url empty_world = [] \<and> axios_get publisher_down ?url = Inr resp
          \<and> isXML (content_type resp)
          \<and> parser_parse publisher_down (response_data resp) = Inr doc
          \<and> no_feed_root doc = Inr False \<and> extractFeed ?url doc = Inr feed
          \<and> truthy (feed_title feed)
          \<and> (query_error publisher_down (InsertFeed (feed\<lparr>feed_id := JStr (v4 publisher_down)\<rparr>))
                = Some x
              \<or> query_error publisher_down
                   (InsertFeed (feed\<lparr>feed_id := JStr (v4 publisher_down)\<rparr>)) = None
                \<and> (query_error publisher_down
                      (InsertSubscription (JStr (v4 publisher_down)) ''u1'') = Some x
                    \<or> query_error publisher_down
                         (InsertSubscription (JStr (v4 publisher_down)) ''u1'') = None
                      \<and> (release_error publisher_down = Some x
                          \<or> release_error publisher_down = None
                            \<and> entityCreated_error publisher_down = Some x))) \<longrightarrow>
        caught publisher_down ?url ''u1'' empty_world x"
    by (elim conjE)
  from this [rule_format, OF p']
  have "caught publisher_down ?url ''u1'' empty_world (Thrown ''pubsub'')" .
  then have c: "fst (addDiscoverFeedResolver publisher_down ?url ''u1'' empty_world)
       = AddDiscoverFeedError [Unauthorized]
     \<and> error_log (snd (addDiscoverFeedResolver publisher_down ?url ''u1'' empty_world))
       = [Thrown ''pubsub'']"
    by (simp add: caught_def l)
  from n a i b p c show ?thesis by simp
qed

section \<open>Format dispatch and extraction\<close>

lemma extractRssData_type:
  "extractRssData url x = Inr f \<Longrightarrow> feed_type f = JStr ''rss'' \<and> feed_link f = JStr url"
  by (auto simp: extractRssData_def bindE_def split: sum.splits)

lemma extractAtomData_type:
  "extractAtomData url x = Inr f \<Longrightarrow> feed_type f = JStr ''atom'' \<and> feed_link f = JStr url"
  by (auto simp: extractAtomData_def bindE_def split: sum.splits)

lemma truthy_opt_member:
  "truthy (opt_member doc k) \<Longrightarrow> member doc k = Inr (opt_member doc k)"
  by (cases doc) (simp_all add: opt_member_def)

lemma member_not_nullish:
  "\<not> nullish doc \<Longrightarrow> member doc k = Inr (opt_member doc k)"
  by (cases doc) (simp_all add: opt_member_def)

lemma truthy_not_nullish: "truthy v \<Longrightarrow> \<not> nullish v"
  by (cases v) simp_all

lemma extractAtomData_truthy:
  "truthy atom \<Longrightarrow> extractAtomData url atom =
     Inr \<lparr> feed_id = JUndefined,
           feed_title = nullish_coalesce (opt_member atom ''title'') (JStr url),
           feed_link = JStr url,
           feed_image = opt_member atom ''icon'',
           feed_type = JStr ''atom'',
           feed_description = nullish_coalesce (opt_member atom ''subtitle'') (JStr '''') \<rparr>"
  by (simp add: extractAtomData_def bindE_def member_not_nullish truthy_not_nullish)

text \<open>
  C5, as stated, fails: the tree of \<^verbatim>\<open><rss></rss>\<close> has an rss root, whose value is
  the empty string; the source tests the value of the root, not its presence, finds no
  feed root and answers BadRequest instead of extracting the document as RSS.
\<close>

theorem rss_root_present_counterexample:
  "has_root rss_empty_root ''rss''
   \<and> no_feed_root rss_empty_root = Inr True
   \<and> fst (addDiscoverFeedResolver (calm xml_response rss_empty_root) ''http://a/feed'' ''u1''
           empty_world) = AddDiscoverFeedError [BadRequest]"
  by (simp add: has_root_def rss_empty_root_def resolver_defs io_defs sample_defs
      feeds_with_link_def isXML_def extract_defs)

text \<open>
  C5, amended. A root counts when its value is truthy (an element with content or
  attributes). If the rss root counts, the document goes to the RSS extractor with that
  root; else if the rdf:RDF root counts, it goes to the RSS extractor with that root; in
  both cases whether a feed root exists plays no part, and every record the RSS extractor
  returns has type rss. Else if the feed root counts, the document is extracted as Atom:
  type atom, description from the subtitle with the empty string as default, image from the
  icon, title from the title with the URL as default. Else the call answers BadRequest.
\<close>

theorem format_dispatch:
  "(truthy (opt_member doc ''rss'') \<longrightarrow>
      no_feed_root doc = Inr False
      \<and> extractFeed url doc = extractRssData url (opt_member doc ''rss''))
   \<and> (\<not> truthy (opt_member doc ''rss'') \<and> truthy (opt_member doc ''rdf:RDF'') \<longrightarrow>
      no_feed_root doc = Inr False
      \<and> extractFeed url doc = extractRssData url (opt_member doc ''rdf:RDF''))
   \<and> (\<forall>x f. extractRssData url x = Inr f \<longrightarrow> feed_type f = JStr ''rss'')
   \<and> (\<not> truthy (opt_member doc ''rss'') \<and> \<not> truthy (opt_member doc ''rdf:RDF'')
        \<and> truthy (opt_member doc ''feed'') \<longrightarrow>
      no_feed_root doc = Inr False
      \<and> extractFeed url doc =
          Inr \<lparr> feed_id = JUndefined,
                feed_title = nullish_coalesce (opt_member (opt_member doc ''feed'') ''title'')
                               (JStr url),
                feed_link = JStr url,
                feed_image = opt_member (opt_member doc ''feed'') ''icon'',
                feed_type = JStr ''atom'',
                feed_description =
                  nullish_coalesce (opt_member (opt_member doc ''feed'') ''subtitle'')
                    (JStr '''') \<rparr>)
   \<and> (\<not> nullish doc \<and> \<not> truthy (opt_member doc ''rss'')
        \<and> \<not> truthy (opt_member doc ''rdf:RDF'') \<and> \<not> truthy (opt_member doc ''feed'') \<longrightarrow>
      no_feed_root doc = Inr True)
   \<and> (\<forall>resp. axios_get e url = Inr resp \<and> isXML (content_type resp)
        \<and> parser_parse e (response_data resp) = Inr doc \<and> no_feed_root doc = Inr True \<longrightarrow>
      fst (addNewSubscription e url uid w) = Inr (AddDiscoverFeedError [BadRequest]))"
proof -
  have rss: "truthy (opt_member doc ''rss'') \<longrightarrow>
      no_feed_root doc = Inr False
      \<and> extractFeed url doc = extractRssData url (opt_member doc ''rss'')"
    by (simp add: no_feed_root_def extractFeed_def rss_or_rdf_def bindE_def truthy_opt_member)
  have rdf: "\<not> truthy (opt_member doc ''rss'') \<and> truthy (opt_member doc ''rdf:RDF'') \<longrightarrow>
      no_feed_root doc = Inr False
      \<and> extractFeed url doc = extractRssData url (opt_member doc ''rdf:RDF'')"
  proof
    assume a: "\<not> truthy (opt_member doc ''rss'') \<and> truthy (opt_member doc ''rdf:RDF'')"
    then have n: "\<not> nullish doc" by (cases doc) (simp_all add: opt_member_def)
    from a n show "no_feed_root doc = Inr False
      \<and> extractFeed url doc = extractRssData url (opt_member doc ''rdf:RDF'')"
      by (simp add: no_feed_root_def extractFeed_def rss_or_rdf_def bindE_def
          member_not_nullish)
  qed
  have ty: "\<forall>x f. extractRssData url x = Inr f \<longrightarrow> feed_type f = JStr ''rss''"
    using extractRssData_type by blast
  have atom: "\<not> truthy (opt_member doc ''rss'') \<and> \<not> truthy (opt_member doc ''rdf:RDF'')
        \<and> truthy (opt_member doc ''feed'') \<longrightarrow>
      no_feed_root doc = Inr False
      \<and> extractFeed url doc =
          Inr \<lparr> feed_id = JUndefined,
                feed_title = nullish_coalesce (opt_member (opt_member doc ''feed'') ''title'')
                               (JStr url),
                feed_link = JStr url,
                feed_image = opt_member (opt_member doc ''feed'') ''icon'',
                feed_type = JStr ''atom'',
                feed_description =
                  nullish_coalesce (opt_member (opt_member doc ''feed'') ''subtitle'')
                    (JStr '''') \<rparr>"
  proof
    assume a: "\<not> truthy (opt_member doc ''rss'') \<and> \<not> truthy (opt_member doc ''rdf:RDF'')
        \<and> truthy (opt_member doc ''feed'')"
    then have n: "\<not> nullish doc" by (cases doc) (simp_all add: opt_member_def)
    from a n show "no_feed_root doc = Inr False
      \<and> extractFeed url doc =
          Inr \<lparr> feed_id = JUndefined,
                feed_title = nullish_coalesce (opt_member (opt_member doc ''feed'') ''title'')
                               (JStr url),
                feed_link = JStr url,
                feed_image = opt_member (opt_member doc ''feed'') ''icon'',
                feed_type = JStr ''atom'',
                feed_description =
                  nullish_coalesce (opt_member (opt_member doc ''feed'') ''subtitle'')
                    (JStr '''') \<rparr>"
      by (simp add: no_feed_root_def extractFeed_def bindE_def member_not_nullish
          extractAtomData_truthy)
  qed
  have none: "\<not> nullish doc \<and> \<not> truthy (opt_member doc ''rss'')
        \<and> \<not> truthy (opt_member doc ''rdf:RDF'') \<and> \<not> truthy (opt_member doc ''feed'') \<longrightarrow>
      no_feed_root doc = Inr True"
    by (simp add: no_feed_root_def bindE_def member_not_nullish)
  have bad: "\<forall>resp. axios_get e url = Inr resp \<and> isXML (content_type resp)
        \<and> parser_parse e (response_data resp) = Inr doc \<and> no_feed_root doc = Inr True \<longrightarrow>
      fst (addNewSubscription e url uid w) = Inr (AddDiscoverFeedError [BadRequest])"
    by (simp add: addNewSubscription_def io_defs)
  from rss rdf ty atom none bad show ?thesis by blast
qed

text \<open>The four branches at an RSS document that also has a feed root, an RDF document,
  an Atom document and a document that is no feed.\<close>

theorem format_dispatch_witness:
  "truthy (opt_member rss_and_atom ''rss'')
   \<and> extractFeed ''http://a/feed'' rss_and_atom
       = Inr \<lparr> feed_id = JUndefined, feed_title = JStr ''Daily'',
               feed_link = JStr ''http://a/feed'', feed_image = JUndefined,
               feed_type = JStr ''rss'', feed_description = JStr '''' \<rparr>
   \<and> truthy (opt_member rdf_sample ''rdf:RDF'')
   \<and> extractFeed ''http://a/feed'' rdf_sample
       = Inr \<lparr> feed_id = JUndefined, feed_title = JStr ''Wire'',
               feed_link = JStr ''http://a/feed'', feed_image = JStr ''http://a/i.png'',
               feed_type = JStr ''rss'', feed_description = JStr '''' \<rparr>
   \<and> truthy (opt_member atom_sample ''feed'')
   \<and> extractFeed ''http://a/feed'' atom_sample
       = Inr \<lparr> feed_id = JUndefined, feed_title = JStr ''Blog'',
               feed_link = JStr ''http://a/feed'', feed_image = JStr ''http://a/i.png'',
               feed_type = JStr ''atom'', feed_description = JStr '''' \<rparr>
   \<and> no_feed_root html_tree = Inr True
   \<and> fst (addNewSubscription (calm xml_response html_tree) ''http://a/feed'' ''u1'' empty_world)
       = Inr (AddDiscoverFeedError [BadRequest])"
proof -
  note d = format_dispatch [of _ "''http://a/feed''" "calm xml_response html_tree" "''u1''"
      empty_world]
  have h1: "truthy (opt_member rss_and_atom ''rss'')"
    by (simp add: rss_and_atom_def opt_member_def)
  have h2: "\<not> truthy (opt_member rdf_sample ''rss'') \<and> truthy (opt_member rdf_sample ''rdf:RDF'')"
    by (simp add: rdf_sample_def opt_member_def)
  have h3: "\<not> truthy (opt_member atom_sample ''rss'')
      \<and> \<not> truthy (opt_member atom_sample ''rdf:RDF'') \<and> truthy (opt_member atom_sample ''feed'')"
    by (simp add: atom_sample_def opt_member_def)
  have h4: "\<not> nullish html_tree \<and> \<not> truthy (opt_member html_tree ''rss'')
      \<and> \<not> truthy (opt_member html_tree ''rdf:RDF'') \<and> \<not> truthy (opt_member html_tree ''feed'')"
    by (simp add: html_tree_def opt_member_def)
  have h5: "axios_get (calm xml_response html_tree) ''http://a/feed'' = Inr xml_response
      \<and> isXML (content_type xml_response)
      \<and> parser_parse (calm xml_response html_tree) (response_data xml_response) = Inr html_tree"
    by (simp add: calm_def xml_response_def isXML_def)
  have r1: "extractFeed ''http://a/feed'' rss_and_atom
       = extractRssData ''http://a/feed'' (opt_member rss_and_atom ''rss'')"
    using d [of rss_and_atom] h1 by blast
  have r2: "extractFeed ''http://a/feed'' rdf_sample
       = extractRssData ''http://a/feed'' (opt_member rdf_sample ''rdf:RDF'')"
    using d [of rdf_sample] h2 by blast
  have r3: "extractFeed ''http://a/feed'' atom_sample
       = Inr \<lparr> feed_id = JUndefined,
                feed_title = nullish_coalesce
                  (opt_member (opt_member atom_sample ''feed'') ''title'') (JStr ''http://a/feed''),
                feed_link = JStr ''http://a/feed'',
                feed_image = opt_member (opt_member atom_sample ''feed'') ''icon'',
                feed_type = JStr ''atom'',
                feed_description = nullish_coalesce
                  (opt_member (opt_member atom_sample ''feed'') ''subtitle'') (JStr '''') \<rparr>"
    using d [of atom_sample] h3 by blast
  have r4: "no_feed_root html_tree = Inr True"
    using d [of html_tree] h4 by blast
  have r5: "fst (addNewSubscription (calm xml_response html_tree) ''http://a/feed'' ''u1''
                 empty_world) = Inr (AddDiscoverFeedError [BadRequest])"
    using d [of html_tree] h5 r4 by blast
  have v1: "extractRssData ''http://a/feed'' (opt_member rss_and_atom ''rss'')
       = Inr \<lparr> feed_id = JUndefined, feed_title = JStr ''Daily'',
               feed_link = JStr ''http://a/feed'', feed_image = JUndefined,
               feed_type = JStr ''rss'', feed_description = JStr '''' \<rparr>"
    by (simp add: rss_and_atom_def extract_defs)
  have v2: "extractRssData ''http://a/feed'' (opt_member rdf_sample ''rdf:RDF'')
       = Inr \<lparr> feed_id = JUndefined, feed_title = JStr ''Wire'',
               feed_link = JStr ''http://a/feed'', feed_image = JStr ''http://a/i.png'',
               feed_type = JStr ''rss'', feed_description = JStr '''' \<rparr>"
    by (simp add: rdf_sample_def extract_defs)
  have v3: "nullish_coalesce (opt_member (opt_member atom_sample ''feed'') ''title'')
              (JStr ''http://a/feed'') = JStr ''Blog''
      \<and> opt_member (opt_member atom_sample ''feed'') ''icon'' = JStr ''http://a/i.png''
      \<and> nullish_coalesce (opt_member (opt_member atom_sample ''feed'') ''subtitle'') (JStr '''')
          = JStr ''''"
    by (simp add: atom_sample_def extract_defs)
  from h1 h2 h3 r1 r2 r3 r4 r5 v1 v2 v3 show ?thesis by simp
qed

text \<open>
  C6, as stated, fails: in an RSS root whose channel holds an image with a url, the
  extracted record has no image, since the source reads the image beside the channel.
\<close>

theorem channel_image_counterexample:
  "opt_member (opt_member (opt_member rss_channel_image ''channel'') ''image'') ''url''
     = JStr ''http://a/i.png''
   \<and> extractRssData ''http://a/feed'' rss_channel_image
       = Inr \<lparr> feed_id = JUndefined, feed_title = JStr ''Daily'',
               feed_link = JStr ''http://a/feed'', feed_image = JUndefined,
               feed_type = JStr ''rss'', feed_description = JStr '''' \<rparr>"
  by (simp add: rss_channel_image_def extract_defs)

text \<open>
  C6, amended. For every RSS or RDF root that has a channel, the extracted record is:
  title, the channel's title, or the URL when that is absent; description, the channel's
  description, or the empty string when that is absent; image, the url of the image element
  that stands beside the channel in the root (absent when there is none); link, the
  requested URL; type rss. The sample document served as \<^verbatim>\<open>application/xml\<close> for a
  URL not yet known, with collaborators that do not raise, succeeds with title Daily,
  description News, type rss, the URL as link, no image and the fresh identifier.
\<close>

theorem rss_extraction:
  "(\<not> nullish (opt_member parsedXml ''channel'') \<longrightarrow>
      extractRssData url parsedXml =
        Inr \<lparr> feed_id = JUndefined,
              feed_title = nullish_coalesce (opt_member (opt_member parsedXml ''channel'') ''title'')
                             (JStr url),
              feed_link = JStr url,
              feed_image = opt_member (opt_member parsedXml ''image'') ''url'',
              feed_type = JStr ''rss'',
              feed_description =
                nullish_coalesce (opt_member (opt_member parsedXml ''channel'') ''description'')
                  (JStr '''') \<rparr>)
   \<and> (\<forall>resp. connect_error e = None \<and> query_error e = (\<lambda>q. None) \<and> release_error e = None
         \<and> entityCreated_error e = None \<and> feeds_with_link url w = []
         \<and> axios_get e url = Inr resp \<and> content_type resp = Some ''application/xml''
         \<and> parser_parse e (response_data resp) = Inr rss_sample \<longrightarrow>
       fst (addDiscoverFeedResolver e url uid w) =
         AddDiscoverFeedSuccess
           \<lparr> feed_id = JStr (v4 e), feed_title = JStr ''Daily'', feed_link = JStr url,
             feed_image = JUndefined, feed_type = JStr ''rss'',
             feed_description = JStr ''News'' \<rparr>)"
proof -
  have a: "\<not> nullish (opt_member parsedXml ''channel'') \<longrightarrow>
      extractRssData url parsedXml =
        Inr \<lparr> feed_id = JUndefined,
              feed_title = nullish_coalesce (opt_member (opt_member parsedXml ''channel'') ''title'')
                             (JStr url),
              feed_link = JStr url,
              feed_image = opt_member (opt_member parsedXml ''image'') ''url'',
              feed_type = JStr ''rss'',
              feed_description =
                nullish_coalesce (opt_member (opt_member parsedXml ''channel'') ''description'')
                  (JStr '''') \<rparr>"
  proof
    assume c: "\<not> nullish (opt_member parsedXml ''channel'')"
    then have n: "\<not> nullish parsedXml" by (cases parsedXml) (simp_all add: opt_member_def)
    from c n show "extractRssData url parsedXml =
        Inr \<lparr> feed_id = JUndefined,
              feed_title = nullish_coalesce (opt_member (opt_member parsedXml ''channel'') ''title'')
                             (JStr url),
              feed_link = JStr url,
              feed_image = opt_member (opt_member parsedXml ''image'') ''url'',
              feed_type = JStr ''rss'',
              feed_description =
                nullish_coalesce (opt_member (opt_member parsedXml ''channel'') ''description'')
                  (JStr '''') \<rparr>"
      by (simp add: extractRssData_def bindE_def member_not_nullish)
  qed
  have b: "\<forall>resp. connect_error e = None \<and> query_error e = (\<lambda>q. None) \<and> release_error e = None
         \<and> entityCreated_error e = None \<and> feeds_with_link url w = []
         \<and> axios_get e url = Inr resp \<and> content_type resp = Some ''application/xml''
         \<and> parser_parse e (response_data resp) = Inr rss_sample \<longrightarrow>
       fst (addDiscoverFeedResolver e url uid w) =
         AddDiscoverFeedSuccess
           \<lparr> feed_id = JStr (v4 e), feed_title = JStr ''Daily'', feed_link = JStr url,
             feed_image = JUndefined, feed_type = JStr ''rss'',
             feed_description = JStr ''News'' \<rparr>"
    by (simp add: resolver_defs io_defs isXML_def rss_sample_def extract_defs)
  from a b show ?thesis by blast
qed

text \<open>An RDF root with its image beside the channel, and the sample document.\<close>

theorem rss_extraction_witness:
  "\<not> nullish (opt_member rdf_sample ''rdf:RDF'')
   \<and> extractRssData ''http://a/feed'' (opt_member rdf_sample ''rdf:RDF'')
       = Inr \<lparr> feed_id = JUndefined, feed_title = JStr ''Wire'',
               feed_link = JStr ''http://a/feed'', feed_image = JStr ''http://a/i.png'',
               feed_type = JStr ''rss'', feed_description = JStr '''' \<rparr>
   \<and> fst (addDiscoverFeedResolver (calm xml_response rss_sample) ''http://a/feed'' ''u1''
           empty_world)
       = AddDiscoverFeedSuccess
           \<lparr> feed_id = JStr ''id-1'', feed_title = JStr ''Daily'',
             feed_link = JStr ''http://a/feed'', feed_image = JUndefined,
             feed_type = JStr ''rss'', feed_description = JStr ''News'' \<rparr>"
proof -
  let ?root = "opt_member rdf_sample ''rdf:RDF''"
  let ?e = "calm xml_response rss_sample"
  note x = rss_extraction [of ?root "''http://a/feed''" ?e empty_world "''u1''"]
  have h1: "\<not> nullish (opt_member ?root ''channel'')"
    by (simp add: rdf_sample_def opt_member_def)
  have h0: "\<not> nullish ?root"
    by (simp add: rdf_sample_def opt_member_def)
  have h2: "connect_error ?e = None \<and> query_error ?e = (\<lambda>q. None) \<and> release_error ?e = None
         \<and> entityCreated_error ?e = None \<and> feeds_with_link ''http://a/feed'' empty_world = []
         \<and> axios_get ?e ''http://a/feed'' = Inr xml_response
         \<and> content_type xml_response = Some ''application/xml''
         \<and> parser_parse ?e (response_data xml_response) = Inr rss_sample"
    by (simp add: calm_def empty_world_def feeds_with_link_def xml_response_def)
  have v: "nullish_coalesce (opt_member (opt_member ?root ''channel'') ''title'')
             (JStr ''http://a/feed'') = JStr ''Wire''
      \<and> opt_member (opt_member ?root ''image'') ''url'' = JStr ''http://a/i.png''
      \<and> nullish_coalesce (opt_member (opt_member ?root ''channel'') ''description'') (JStr '''')
          = JStr ''''"
    by (simp add: rdf_sample_def extract_defs)
  have i: "v4 ?e = ''id-1''" by (simp add: calm_def)
  have r1: "extractRssData ''http://a/feed'' ?root
       = Inr \<lparr> feed_id = JUndefined, feed_title = JStr ''Wire'',
               feed_link = JStr ''http://a/feed'', feed_image = JStr ''http://a/i.png'',
               feed_type = JStr ''rss'', feed_description = JStr '''' \<rparr>"
    using x h1 v by simp
  have r2: "fst (addDiscoverFeedResolver ?e ''http://a/feed'' ''u1'' empty_world)
       = AddDiscoverFeedSuccess
           \<lparr> feed_id = JStr (v4 ?e), feed_title = JStr ''Daily'',
             feed_link = JStr ''http://a/feed'', feed_image = JUndefined,
             feed_type = JStr ''rss'', feed_description = JStr ''News'' \<rparr>"
    using x h2 by blast
  from h0 r1 r2 i show ?thesis by simp
qed

section \<open>The discovery event\<close>

text \<open>
  C9, as stated, fails: when the publisher raises after the new-feed path has succeeded,
  the rows stay but the caller gets Unauthorized instead of the success, since the call of
  \<^verbatim>\<open>entityCreated\<close> is awaited inside the \<^verbatim>\<open>try\<close> block.
\<close>

theorem publish_failure_counterexample:
  "new_feed_success publisher_down ''http://a/feed'' ''u1'' empty_world
     = Some (daily_feed, empty_world\<lparr> discover_feed := [daily_feed],
          discover_feed_subscription := [\<lparr>sub_feed_id = JStr ''id-1'', sub_user_id = ''u1''\<rparr>],
          acquired := 1, released := 1, parse_calls := [''<rss>...</rss>''] \<rparr>)
   \<and> fst (addDiscoverFeedResolver publisher_down ''http://a/feed'' ''u1'' empty_world)
       = AddDiscoverFeedError [Unauthorized]
   \<and> discover_feed_subscription
        (snd (addDiscoverFeedResolver publisher_down ''http://a/feed'' ''u1'' empty_world))
       = [\<lparr>sub_feed_id = JStr ''id-1'', sub_user_id = ''u1''\<rparr>]"
  by (simp add: new_feed_success_def publisher_down_def daily_feed_def resolver_defs io_defs
      sample_defs feeds_with_link_def isXML_def extract_defs)

lemma new_feed_success_SomeD:
  "new_feed_success e url uid w = Some (f, w1) \<Longrightarrow>
     connect_error e = None \<and> query_error e (SelectFeedIdByLink url) = None
     \<and> feeds_with_link url w = []
     \<and> addNewSubscription e url uid (w\<lparr>acquired := Suc (acquired w)\<rparr>)
         = (Inr (AddDiscoverFeedSuccess f), w1)"
  by (auto simp add: new_feed_success_def connect_def select_feed_id_by_link_def
      split: option.splits sum.splits prod.splits list.splits result.splits)

lemma new_feed_success_None:
  assumes "new_feed_success e url uid w = None"
  shows "entityCreated_calls (snd (addDiscoverFeedResolver e url uid w)) = entityCreated_calls w"
proof -
  let ?w = "w\<lparr>acquired := Suc (acquired w)\<rparr>"
  have x: "entityCreated_calls (snd (addNewSubscription e url uid ?w)) = entityCreated_calls w"
    by (simp add: addNewSubscription_calls)
  have y: "entityCreated_calls (snd (handleExistingSubscription e
              (id_only (hd (feeds_with_link url w))) uid ?w)) = entityCreated_calls w"
    by (simp add: handleExistingSubscription_calls)
  from assms have z: "connect_error e = None \<Longrightarrow> query_error e (SelectFeedIdByLink url) = None
      \<Longrightarrow> feeds_with_link url w = []
      \<Longrightarrow> \<forall>f w1. addNewSubscription e url uid ?w \<noteq> (Inr (AddDiscoverFeedSuccess f), w1)"
    by (auto simp add: new_feed_success_def connect_def select_feed_id_by_link_def
      split: option.splits sum.splits prod.splits list.splits result.splits)
  show ?thesis
    using x y z
    by (auto simp add: addDiscoverFeedResolver_def resolver_body_unfold
        split: option.splits sum.splits prod.splits result.splits)
qed

lemma new_feed_success_Some:
  assumes "new_feed_success e url uid w = Some (f, w1)"
  shows "snd (addDiscoverFeedResolver e url uid w)
           = (case entityCreated_error e of
                None \<Rightarrow> published f uid w1
              | Some x \<Rightarrow> (published f uid w1)
                            \<lparr>error_log := error_log (published f uid w1) @ [x]\<rparr>)"
    and "fst (addDiscoverFeedResolver e url uid w)
           = (case entityCreated_error e of
                None \<Rightarrow> AddDiscoverFeedSuccess f
              | Some x \<Rightarrow> AddDiscoverFeedError [Unauthorized])"
    and "discover_feed w1 = discover_feed w @ [f]"
    and "discover_feed_subscription w1
           = discover_feed_subscription w @ [\<lparr>sub_feed_id = feed_id f, sub_user_id = uid\<rparr>]"
    and "entityCreated_calls w1 = entityCreated_calls w"
proof -
  let ?w = "w\<lparr>acquired := Suc (acquired w)\<rparr>"
  from new_feed_success_SomeD [OF assms]
  have c: "connect_error e = None" and q: "query_error e (SelectFeedIdByLink url) = None"
    and n: "feeds_with_link url w = []"
    and a: "addNewSubscription e url uid ?w = (Inr (AddDiscoverFeedSuccess f), w1)"
    by simp_all
  from c q n a show "snd (addDiscoverFeedResolver e url uid w)
           = (case entityCreated_error e of
                None \<Rightarrow> published f uid w1
              | Some x \<Rightarrow> (published f uid w1)
                            \<lparr>error_log := error_log (published f uid w1) @ [x]\<rparr>)"
    by (simp add: addDiscoverFeedResolver_def resolver_body_unfold split: option.splits)
  from c q n a show "fst (addDiscoverFeedResolver e url uid w)
           = (case entityCreated_error e of
                None \<Rightarrow> AddDiscoverFeedSuccess f
              | Some x \<Rightarrow> AddDiscoverFeedError [Unauthorized])"
    by (simp add: addDiscoverFeedResolver_def resolver_body_unfold split: option.splits)
  from addNewSubscription_success [OF a]
  show "discover_feed w1 = discover_feed w @ [f]"
    and "discover_feed_subscription w1
           = discover_feed_subscription w @ [\<lparr>sub_feed_id = feed_id f, sub_user_id = uid\<rparr>]"
    by simp_all
  from addNewSubscription_calls [of e url uid ?w] a
  show "entityCreated_calls w1 = entityCreated_calls w" by simp
qed

lemma new_feed_success_known:
  "feeds_with_link url w \<noteq> [] \<Longrightarrow> new_feed_success e url uid w = None"
  by (simp add: new_feed_success_def connect_def select_feed_id_by_link_def
      split: option.splits list.splits)

text \<open>
  C9, amended. \<^verbatim>\<open>entityCreated\<close> is called, once, with kind RSS_FEED, the feed of the
  result, libraryItemId NA and the caller as owner, exactly when the new-feed path returns
  success; it is not called on the existing-feed path nor when the call fails for another
  reason than the publication. When the publication raises, the Feed row and the
  Subscription row stay inserted, and the caller gets the failure Unauthorized in place
  of the success.
\<close>

theorem publication:
  "(case new_feed_success e url uid w of
      None \<Rightarrow>
        entityCreated_calls (snd (addDiscoverFeedResolver e url uid w)) = entityCreated_calls w
    | Some (f, w1) \<Rightarrow>
        entityCreated_calls (snd (addDiscoverFeedResolver e url uid w))
          = entityCreated_calls w
             @ [\<lparr>event_kind = RSS_FEED, event_feed = f, event_libraryItemId = ''NA'',
                 event_owner = uid\<rparr>]
        \<and> discover_feed (snd (addDiscoverFeedResolver e url uid w)) = discover_feed w @ [f]
        \<and> discover_feed_subscription (snd (addDiscoverFeedResolver e url uid w))
            = discover_feed_subscription w @ [\<lparr>sub_feed_id = feed_id f, sub_user_id = uid\<rparr>]
        \<and> fst (addDiscoverFeedResolver e url uid w)
            = (case entityCreated_error e of
                 None \<Rightarrow> AddDiscoverFeedSuccess f
               | Some x \<Rightarrow> AddDiscoverFeedError [Unauthorized]))
   \<and> (feeds_with_link url w \<noteq> [] \<longrightarrow>
        entityCreated_calls (snd (addDiscoverFeedResolver e url uid w)) = entityCreated_calls w)
   \<and> (\<forall>codes. fst (addDiscoverFeedResolver e url uid w) = AddDiscoverFeedError codes
          \<and> entityCreated_error e = None \<longrightarrow>
        entityCreated_calls (snd (addDiscoverFeedResolver e url uid w)) = entityCreated_calls w)"
proof (cases "new_feed_success e url uid w")
  case None
  from new_feed_success_None [OF None] None show ?thesis by simp
next
  case (Some p)
  obtain f w1 where p: "p = (f, w1)" by (cases p)
  with Some have s: "new_feed_success e url uid w = Some (f, w1)" by simp
  note k = new_feed_success_Some [OF s]
  have n: "feeds_with_link url w = []"
    using new_feed_success_known [of url w e uid] s by fastforce
  have a: "entityCreated_calls (snd (addDiscoverFeedResolver e url uid w))
          = entityCreated_calls w
             @ [\<lparr>event_kind = RSS_FEED, event_feed = f, event_libraryItemId = ''NA'',
                 event_owner = uid\<rparr>]"
    using k(1) k(5) by (simp add: published_def split: option.splits)
  have b: "discover_feed (snd (addDiscoverFeedResolver e url uid w)) = discover_feed w @ [f]"
    using k(1) k(3) by (simp add: published_def split: option.splits)
  have c: "discover_feed_subscription (snd (addDiscoverFeedResolver e url uid w))
            = discover_feed_subscription w @ [\<lparr>sub_feed_id = feed_id f, sub_user_id = uid\<rparr>]"
    using k(1) k(4) by (simp add: published_def split: option.splits)
  have d: "\<forall>codes. fst (addDiscoverFeedResolver e url uid w) = AddDiscoverFeedError codes
          \<and> entityCreated_error e = None \<longrightarrow>
        entityCreated_calls (snd (addDiscoverFeedResolver e url uid w)) = entityCreated_calls w"
    using k(2) by (auto split: option.splits)
  from s a b c d n k(2) show ?thesis by simp
qed

text \<open>One event for the sample document on an empty store; none for a known feed.\<close>

theorem publication_witness:
  "new_feed_success (calm xml_response rss_sample) ''http://a/feed'' ''u1'' empty_world
     = Some (daily_feed, empty_world\<lparr> discover_feed := [daily_feed],
          discover_feed_subscription := [\<lparr>sub_feed_id = JStr ''id-1'', sub_user_id = ''u1''\<rparr>],
          acquired := 1, released := 1, parse_calls := [''<rss>...</rss>''] \<rparr>)
   \<and> entityCreated_calls
        (snd (addDiscoverFeedResolver (calm xml_response rss_sample) ''http://a/feed'' ''u1''
                empty_world))
       = [\<lparr>event_kind = RSS_FEED, event_feed = daily_feed, event_libraryItemId = ''NA'',
           event_owner = ''u1''\<rparr>]
   \<and> fst (addDiscoverFeedResolver (calm xml_response rss_sample) ''http://a/feed'' ''u1''
           empty_world) = AddDiscoverFeedSuccess daily_feed
   \<and> feeds_with_link ''http://a/feed'' twice_subscribed = [known_feed]
   \<and> entityCreated_calls
        (snd (addDiscoverFeedResolver (calm xml_response rss_sample) ''http://a/feed'' ''u1''
                twice_subscribed)) = []"
proof -
  let ?e = "calm xml_response rss_sample"
  have s: "new_feed_success ?e ''http://a/feed'' ''u1'' empty_world
     = Some (daily_feed, empty_world\<lparr> discover_feed := [daily_feed],
          discover_feed_subscription := [\<lparr>sub_feed_id = JStr ''id-1'', sub_user_id = ''u1''\<rparr>],
          acquired := 1, released := 1, parse_calls := [''<rss>...</rss>''] \<rparr>)"
    by (simp add: new_feed_success_def daily_feed_def resolver_defs io_defs
      sample_defs feeds_with_link_def isXML_def extract_defs)
  have t: "feeds_with_link ''http://a/feed'' twice_subscribed = [known_feed]"
    by (simp add: feeds_with_link_def twice_subscribed_def empty_world_def known_feed_def)
  have u: "entityCreated_error ?e = None" "entityCreated_calls empty_world = []"
    "entityCreated_calls twice_subscribed = []"
    by (simp_all add: calm_def empty_world_def twice_subscribed_def)
  from publication [of ?e "''http://a/feed''" "''u1''" empty_world] s u
  have a: "entityCreated_calls
        (snd (addDiscoverFeedResolver ?e ''http://a/feed'' ''u1'' empty_world))
       = [\<lparr>event_kind = RSS_FEED, event_feed = daily_feed, event_libraryItemId = ''NA'',
           event_owner = ''u1''\<rparr>]
     \<and> fst (addDiscoverFeedResolver ?e ''http://a/feed'' ''u1'' empty_world)
         = AddDiscoverFeedSuccess daily_feed"
    by simp
  from publication [of ?e "''http://a/feed''" "''u1''" twice_subscribed] t u
  have b: "entityCreated_calls
        (snd (addDiscoverFeedResolver ?e ''http://a/feed'' ''u1'' twice_subscribed)) = []"
    by simp
  from s t a b show ?thesis by simp
qed

section \<open>The feed of a successful result\<close>

lemma nullish_coalesce_not_nullish: "\<not> nullish b \<Longrightarrow> \<not> nullish (nullish_coalesce a b)"
  by (simp add: nullish_coalesce_def)

lemma extractRssData_shape:
  "extractRssData url x = Inr f \<Longrightarrow>
     feed_type f = JStr ''rss'' \<and> feed_link f = JStr url \<and> \<not> nullish (feed_description f)"
  by (auto simp: extractRssData_def bindE_def nullish_coalesce_not_nullish split: sum.splits)

lemma extractAtomData_shape:
  "extractAtomData url x = Inr f \<Longrightarrow>
     feed_type f = JStr ''atom'' \<and> feed_link f = JStr url \<and> \<not> nullish (feed_description f)"
  by (auto simp: extractAtomData_def bindE_def nullish_coalesce_not_nullish split: sum.splits)

lemma extractFeed_shape:
  "extractFeed url doc = Inr f \<Longrightarrow>
     (feed_type f = JStr ''rss'' \<or> feed_type f = JStr ''atom'') \<and> feed_link f = JStr url
     \<and> \<not> nullish (feed_description f)"
  using extractRssData_shape [of url _ f] extractAtomData_shape [of url _ f]
  by (auto simp: extractFeed_def bindE_def split: sum.splits if_splits)

lemma addNewSubscription_success_extract:
  "addNewSubscription e url uid w = (Inr (AddDiscoverFeedSuccess f), w1) \<Longrightarrow>
     \<exists>doc feed. extractFeed url doc = Inr feed \<and> truthy (feed_title feed)
       \<and> f = feed\<lparr>feed_id := JStr (v4 e)\<rparr>"
  by (auto simp add: addNewSubscription_def io_defs split: option.splits sum.splits if_splits)

lemma addNewSubscription_success_shape:
  assumes "addNewSubscription e url uid w = (Inr (AddDiscoverFeedSuccess f), w1)"
  shows "feed_id f = JStr (v4 e) \<and> truthy (feed_title f) \<and> feed_link f = JStr url
     \<and> (feed_type f = JStr ''rss'' \<or> feed_type f = JStr ''atom'')
     \<and> \<not> nullish (feed_description f)"
proof -
  from addNewSubscription_success_extract [OF assms]
  obtain doc feed where x: "extractFeed url doc = Inr feed" and t: "truthy (feed_title feed)"
    and f: "f = feed\<lparr>feed_id := JStr (v4 e)\<rparr>" by blast
  from extractFeed_shape [OF x] t f show ?thesis by simp
qed




lemma resolver_new_feed:
  assumes "feeds_with_link url w = []"
    and "fst (addDiscoverFeedResolver e url uid w) = AddDiscoverFeedSuccess f"
  shows "\<exists>w1. addNewSubscription e url uid (w\<lparr>acquired := Suc (acquired w)\<rparr>)
           = (Inr (AddDiscoverFeedSuccess f), w1)"
  using assms
  by (simp add: addDiscoverFeedResolver_def resolver_body_unfold
      split: option.splits sum.splits prod.splits result.splits)



section \<open>One Feed row per link\<close>

lemma handleExistingSubscription_feeds:
  "discover_feed (snd (handleExistingSubscription e feed uid w)) = discover_feed w"
  by (simp add: handleExistingSubscription_def array_to_number_def io_defs
      split: option.splits sum.splits)

lemma addNewSubscription_feeds:
  "discover_feed (snd (addNewSubscription e url uid w)) = discover_feed w
   \<or> (\<exists>row. feed_link row = JStr url
         \<and> discover_feed (snd (addNewSubscription e url uid w)) = discover_feed w @ [row])"
  by (auto simp add: addNewSubscription_def io_defs dest: extractFeed_shape
      split: option.splits sum.splits)

lemma resolver_feeds:
  "discover_feed (snd (addDiscoverFeedResolver e url uid w)) = discover_feed w
   \<or> (feeds_with_link url w = []
       \<and> (\<exists>row. feed_link row = JStr url
             \<and> discover_feed (snd (addDiscoverFeedResolver e url uid w))
                 = discover_feed w @ [row]))"
proof -
  let ?w = "w\<lparr>acquired := Suc (acquired w)\<rparr>"
  have h: "discover_feed (snd (handleExistingSubscription e
              (id_only (hd (feeds_with_link url w))) uid ?w)) = discover_feed w"
    by (simp add: handleExistingSubscription_feeds)
  have n: "discover_feed (snd (addNewSubscription e url uid ?w)) = discover_feed w
   \<or> (\<exists>row. feed_link row = JStr url
         \<and> discover_feed (snd (addNewSubscription e url uid ?w)) = discover_feed w @ [row])"
    using addNewSubscription_feeds [of e url uid ?w] by simp
  show ?thesis
  proof (cases "feeds_with_link url w = []")
    case False
    with h show ?thesis
      by (auto simp add: addDiscoverFeedResolver_def resolver_body_unfold
          split: option.splits sum.splits prod.splits)
  next
    case True
    have "discover_feed (snd (addDiscoverFeedResolver e url uid w)) = discover_feed w
      \<or> discover_feed (snd (addDiscoverFeedResolver e url uid w))
          = discover_feed (snd (addNewSubscription e url uid ?w))"
      using True
      by (auto simp add: addDiscoverFeedResolver_def resolver_body_unfold published_def
          split: option.splits sum.splits prod.splits result.splits)
    with n True show ?thesis by auto
  qed
qed

lemma distinct_filter_le_one:
  "distinct (map g xs) \<Longrightarrow> length (filter (\<lambda>x. g x = v) xs) \<le> 1"
proof (induction xs)
  case Nil
  then show ?case by simp
next
  case (Cons x xs)
  show ?case
  proof (cases "g x = v")
    case True
    with Cons.prems have "v \<notin> g ` set xs" by auto
    then have "filter (\<lambda>x. g x = v) xs = []" by (auto simp: filter_empty_conv)
    with True show ?thesis by simp
  next
    case False
    with Cons show ?thesis by simp
  qed
qed

lemma links_unique_count: "links_unique w \<Longrightarrow> length (feeds_with_link L w) \<le> 1"
  unfolding links_unique_def feeds_with_link_def by (rule distinct_filter_le_one)

lemma links_unique_step:
  assumes "links_unique w"
  shows "links_unique (snd (addDiscoverFeedResolver e url uid w))"
proof -
  from resolver_feeds [of e url uid w]
  consider "discover_feed (snd (addDiscoverFeedResolver e url uid w)) = discover_feed w"
    | row where "feeds_with_link url w = []" "feed_link row = JStr url"
        "discover_feed (snd (addDiscoverFeedResolver e url uid w)) = discover_feed w @ [row]"
    by blast
  then show ?thesis
  proof cases
    case 1
    with assms show ?thesis by (simp add: links_unique_def)
  next
    case 2
    from 2(1) have "JStr url \<notin> feed_link ` set (discover_feed w)"
      by (auto simp: feeds_with_link_def filter_empty_conv)
    with assms 2(2) 2(3) show ?thesis by (simp add: links_unique_def)
  qed
qed

lemma known_link_step:
  assumes "feeds_with_link L w \<noteq> []"
  shows "feeds_with_link L (snd (addDiscoverFeedResolver e url uid w)) \<noteq> []"
  using resolver_feeds [of e url uid w] assms
  by (auto simp: feeds_with_link_def)

lemma success_link_step:
  assumes "fst (addDiscoverFeedResolver e url uid w) = AddDiscoverFeedSuccess f"
  shows "feeds_with_link url (snd (addDiscoverFeedResolver e url uid w)) \<noteq> []"
proof (cases "feeds_with_link url w = []")
  case False
  then show ?thesis by (rule known_link_step)
next
  case True
  let ?w = "w\<lparr>acquired := Suc (acquired w)\<rparr>"
  from resolver_new_feed [OF True assms]
  obtain w1 where a: "addNewSubscription e url uid ?w = (Inr (AddDiscoverFeedSuccess f), w1)" ..
  from addNewSubscription_success [OF a] have d: "discover_feed w1 = discover_feed w @ [f]"
    by simp
  from addNewSubscription_success_shape [OF a] have l: "feed_link f = JStr url" by simp
  from True a have "discover_feed (snd (addDiscoverFeedResolver e url uid w)) = discover_feed w1"
    using assms
    by (auto simp add: addDiscoverFeedResolver_def resolver_body_unfold published_def
        split: option.splits sum.splits prod.splits result.splits)
  with d l show ?thesis by (simp add: feeds_with_link_def)
qed

lemma run_links_unique: "links_unique w \<Longrightarrow> links_unique (snd (run cs w))"
proof (induction cs arbitrary: w)
  case Nil
  then show ?case by simp
next
  case (Cons c cs)
  obtain e url uid where c: "c = (e, url, uid)" by (cases c)
  from Cons.prems have "links_unique (snd (addDiscoverFeedResolver e url uid w))"
    by (rule links_unique_step)
  from Cons.IH [OF this] c show ?case by (auto split: prod.splits)
qed

lemma run_known_link:
  "feeds_with_link L w \<noteq> [] \<Longrightarrow> feeds_with_link L (snd (run cs w)) \<noteq> []"
proof (induction cs arbitrary: w)
  case Nil
  then show ?case by simp
next
  case (Cons c cs)
  obtain e url uid where c: "c = (e, url, uid)" by (cases c)
  from Cons.prems have "feeds_with_link L (snd (addDiscoverFeedResolver e url uid w)) \<noteq> []"
    by (rule known_link_step)
  from Cons.IH [OF this] c show ?case by (auto split: prod.splits)
qed

lemma run_success_link:
  "i < length cs \<Longrightarrow> fst (run cs w) ! i = AddDiscoverFeedSuccess f \<Longrightarrow>
     feeds_with_link (fst (snd (cs ! i))) (snd (run cs w)) \<noteq> []"
proof (induction cs arbitrary: w i)
  case Nil
  then show ?case by simp
next
  case (Cons c cs)
  obtain e url uid where c: "c = (e, url, uid)" by (cases c)
  let ?w = "snd (addDiscoverFeedResolver e url uid w)"
  have r: "run (c # cs) w
      = (fst (addDiscoverFeedResolver e url uid w) # fst (run cs ?w), snd (run cs ?w))"
    using c by (auto split: prod.splits)
  show ?case
  proof (cases i)
    case 0
    with Cons.prems r have "fst (addDiscoverFeedResolver e url uid w) = AddDiscoverFeedSuccess f"
      by simp
    then have "feeds_with_link url ?w \<noteq> []" by (rule success_link_step)
    then have "feeds_with_link url (snd (run cs ?w)) \<noteq> []" by (rule run_known_link)
    with 0 c r show ?thesis by simp
  next
    case (Suc j)
    with Cons.prems r have "j < length cs" "fst (run cs ?w) ! j = AddDiscoverFeedSuccess f"
      by simp_all
    from Cons.IH [OF this] Suc r show ?thesis by simp
  qed
qed

text \<open>
  C2. In the sequential model, from a store with at most one Feed row per link: after any
  sequence of calls, whatever the collaborators do, the store still has at most one Feed
  row per link; a call whose URL already has a Feed row inserts no Feed row; and for every
  call of the sequence that succeeded, exactly one Feed row with its URL as link exists at
  the end.
\<close>

theorem dedup_invariant:
  assumes "links_unique w"
  shows "links_unique (snd (run cs w))
       \<and> (\<forall>L. length (feeds_with_link L (snd (run cs w))) \<le> 1)
       \<and> (\<forall>e url uid. feeds_with_link url w \<noteq> [] \<longrightarrow>
            discover_feed (snd (addDiscoverFeedResolver e url uid w)) = discover_feed w)
       \<and> (\<forall>i f. i < length cs \<and> fst (run cs w) ! i = AddDiscoverFeedSuccess f \<longrightarrow>
            length (feeds_with_link (fst (snd (cs ! i))) (snd (run cs w))) = 1)"
proof -
  have a: "links_unique (snd (run cs w))" using assms by (rule run_links_unique)
  have b: "length (feeds_with_link L (snd (run cs w))) \<le> 1" for L
    using a by (rule links_unique_count)
  have c: "discover_feed (snd (addDiscoverFeedResolver e url uid w)) = discover_feed w"
    if "feeds_with_link url w \<noteq> []" for e url uid
    using resolver_feeds [of e url uid w] that by blast
  have d: "length (feeds_with_link (fst (snd (cs ! i))) (snd (run cs w))) = 1"
    if "i < length cs" and "fst (run cs w) ! i = AddDiscoverFeedSuccess f" for i f
  proof -
    from run_success_link [OF that]
    have "length (feeds_with_link (fst (snd (cs ! i))) (snd (run cs w))) \<noteq> 0" by simp
    with b [of "fst (snd (cs ! i))"] show ?thesis by linarith
  qed
  from a b c d show ?thesis by blast
qed

text \<open>Three discoveries of one URL by two users on an empty store leave one Feed row.\<close>

theorem dedup_invariant_witness:
  "links_unique empty_world
   \<and> fst (run three_discoveries empty_world)
       = [AddDiscoverFeedSuccess daily_feed, AddDiscoverFeedSuccess (id_only daily_feed),
          AddDiscoverFeedSuccess (id_only daily_feed)]
   \<and> length (feeds_with_link ''http://a/feed'' (snd (run three_discoveries empty_world))) = 1"
proof -
  have u: "links_unique empty_world" by (simp add: links_unique_def empty_world_def)
  have r: "fst (run three_discoveries empty_world)
       = [AddDiscoverFeedSuccess daily_feed, AddDiscoverFeedSuccess (id_only daily_feed),
          AddDiscoverFeedSuccess (id_only daily_feed)]"
    by (simp add: three_discoveries_def daily_feed_def id_only_def resolver_defs io_defs
        sample_defs feeds_with_link_def isXML_def extract_defs)
  have i: "(0::nat) < length three_discoveries
      \<and> fst (run three_discoveries empty_world) ! 0 = AddDiscoverFeedSuccess daily_feed"
    by (simp add: r) (simp add: three_discoveries_def)
  have l: "fst (snd (three_discoveries ! 0)) = ''http://a/feed''"
    by (simp add: three_discoveries_def)
  note x = dedup_invariant [OF u, of three_discoveries]
  note y = conjunct2 [OF conjunct2 [OF conjunct2 [OF x]], rule_format, OF i]
  from y l have "length (feeds_with_link ''http://a/feed''
      (snd (run three_discoveries empty_world))) = 1" by (simp only:)
  with u r show ?thesis by (intro conjI)
qed

end
